theory Spec2Isabelle
  imports Complex_Main "HOL-Library.Multiset"
begin

section \<open>Numbers\<close>

text \<open>
  The arrays of the kernels hold \<^verbatim>\<open>float64\<close> values. They are modelled as exact
  reals extended with the three special values of IEEE arithmetic, so that a division by
  zero is a value of the model (\<open>PInf\<close>, \<open>NInf\<close> or \<open>NaN\<close>), as it is in NumPy, which
  warns and goes on. Rounding and the sign of zero are not modelled.
\<close>

datatype npfloat = Fin real | PInf | NInf | NaN

fun isnan :: "npfloat \<Rightarrow> bool" where
  "isnan NaN = True"
| "isnan _ = False"

fun isfinite :: "npfloat \<Rightarrow> bool" where
  "isfinite (Fin _) = True"
| "isfinite _ = False"

fun fl_neg :: "npfloat \<Rightarrow> npfloat" where
  "fl_neg (Fin a) = Fin (- a)"
| "fl_neg PInf = NInf"
| "fl_neg NInf = PInf"
| "fl_neg NaN = NaN"

fun fl_add :: "npfloat \<Rightarrow> npfloat \<Rightarrow> npfloat" where
  "fl_add (Fin a) (Fin b) = Fin (a + b)"
| "fl_add (Fin a) PInf = PInf"
| "fl_add (Fin a) NInf = NInf"
| "fl_add PInf (Fin b) = PInf"
| "fl_add PInf PInf = PInf"
| "fl_add NInf (Fin b) = NInf"
| "fl_add NInf NInf = NInf"
| "fl_add _ _ = NaN"

definition fl_sub :: "npfloat \<Rightarrow> npfloat \<Rightarrow> npfloat" where
  "fl_sub a b = fl_add a (fl_neg b)"

fun fl_mul :: "npfloat \<Rightarrow> npfloat \<Rightarrow> npfloat" where
  "fl_mul (Fin a) (Fin b) = Fin (a * b)"
| "fl_mul (Fin a) PInf = (if a = 0 then NaN else if 0 < a then PInf else NInf)"
| "fl_mul (Fin a) NInf = (if a = 0 then NaN else if 0 < a then NInf else PInf)"
| "fl_mul PInf (Fin b) = (if b = 0 then NaN else if 0 < b then PInf else NInf)"
| "fl_mul NInf (Fin b) = (if b = 0 then NaN else if 0 < b then NInf else PInf)"
| "fl_mul PInf PInf = PInf"
| "fl_mul PInf NInf = NInf"
| "fl_mul NInf PInf = NInf"
| "fl_mul NInf NInf = PInf"
| "fl_mul _ _ = NaN"

fun fl_div :: "npfloat \<Rightarrow> npfloat \<Rightarrow> npfloat" where
  "fl_div (Fin a) (Fin b) =
     (if b \<noteq> 0 then Fin (a / b) else if a = 0 then NaN else if 0 < a then PInf else NInf)"
| "fl_div (Fin a) PInf = Fin 0"
| "fl_div (Fin a) NInf = Fin 0"
| "fl_div PInf (Fin b) = (if 0 \<le> b then PInf else NInf)"
| "fl_div NInf (Fin b) = (if 0 \<le> b then NInf else PInf)"
| "fl_div _ _ = NaN"

text \<open>The comparisons of IEEE arithmetic: every comparison with \<open>NaN\<close> is false.\<close>

fun fl_less :: "npfloat \<Rightarrow> npfloat \<Rightarrow> bool" where
  "fl_less (Fin a) (Fin b) = (a < b)"
| "fl_less (Fin a) PInf = True"
| "fl_less NInf (Fin b) = True"
| "fl_less NInf PInf = True"
| "fl_less _ _ = False"

definition fl_le :: "npfloat \<Rightarrow> npfloat \<Rightarrow> bool" where
  "fl_le a b = (\<not> isnan a \<and> \<not> isnan b \<and> \<not> fl_less b a)"

section \<open>Exceptions and the log\<close>

text \<open>
  Every \<^verbatim>\<open>raise\<close> of the modelled functions is a constructor of \<open>error\<close>;
  \<open>exc_class\<close> gives the Python class of the exception.
\<close>

datatype pyexc = ValueError | KeyError | IndexError | InvalidEnumError

datatype error =
    InvalidAggregation string
  | LayerNotFound string
  | TopGenesNotPositive bool int
  | TopGenesContainNaN nat bool nat
  | NoGenesSelected
  | VarNameNotFound string
  | LayersKeyError "string option"
  | TooManyIndices
  | ZeroSizeReduction
  | DimensionMismatch

fun exc_class :: "error \<Rightarrow> pyexc" where
  "exc_class (InvalidAggregation _) = InvalidEnumError"
| "exc_class (LayerNotFound _) = KeyError"
| "exc_class (TopGenesNotPositive _ _) = ValueError"
| "exc_class (TopGenesContainNaN _ _ _) = ValueError"
| "exc_class NoGenesSelected = ValueError"
| "exc_class (VarNameNotFound _) = KeyError"
| "exc_class (LayersKeyError _) = KeyError"
| "exc_class TooManyIndices = IndexError"
| "exc_class ZeroSizeReduction = ValueError"
| "exc_class DimensionMismatch = ValueError"

section \<open>Matrices\<close>

text \<open>
  A matrix is a list of rows of equal length. A dense array stores every entry; a sparse
  matrix stores some of them, and an entry that is not stored (\<open>None\<close>) reads as zero.
\<close>

datatype matrix = Ndarray "npfloat list list" | Spmatrix "npfloat option list list"

fun issparse :: "matrix \<Rightarrow> bool" where
  "issparse (Ndarray _) = False"
| "issparse (Spmatrix _) = True"

fun shape0 :: "matrix \<Rightarrow> nat" where
  "shape0 (Ndarray rows) = length rows"
| "shape0 (Spmatrix rows) = length rows"

definition stored :: "npfloat option \<Rightarrow> npfloat" where
  "stored e = (case e of None \<Rightarrow> Fin 0 | Some v \<Rightarrow> v)"

text \<open>\<^verbatim>\<open>matrix.A\<close>: the dense array of a sparse matrix.\<close>

fun toarray :: "matrix \<Rightarrow> npfloat list list" where
  "toarray (Ndarray rows) = rows"
| "toarray (Spmatrix rows) = map (map stored) rows"

section \<open>ConnectivityMixin: density normalization\<close>

text \<open>
  \<^verbatim>\<open>self._conn.sum(axis=0)\<close>: the sum over the rows, one value per column of the
  stored connectivities (entries that are not stored add zero, so the connectivities are
  given by their dense values).
\<close>

definition sum_axis0 :: "npfloat list list \<Rightarrow> npfloat list" where
  "sum_axis0 conn =
     map (\<lambda>j. foldr fl_add (map (\<lambda>row. row ! j) conn) (Fin 0))
       [0..<(case conn of [] \<Rightarrow> 0 | r # _ \<Rightarrow> length r)]"

text \<open>
  \<^verbatim>\<open>spdiags(1.0 / q, 0, n, n)\<close> is a sparse diagonal matrix that stores the values
  \<open>1 / q\<close> on its diagonal, as far as there are any. The two products with it scale
  the entry \<open>(i, j)\<close> by the diagonal values at \<open>i\<close> and at \<open>j\<close>: a sparse product
  touches stored entries only (and a zero on the diagonal is dropped when the diagonal
  matrix is converted for it), a product with a dense array multiplies every entry.
\<close>

definition scale_dense :: "npfloat list \<Rightarrow> nat \<Rightarrow> npfloat \<Rightarrow> npfloat" where
  "scale_dense d i v = (if i < length d then fl_mul (d ! i) v else Fin 0)"

definition scale_sparse :: "npfloat list \<Rightarrow> nat \<Rightarrow> npfloat option \<Rightarrow> npfloat option" where
  "scale_sparse d i e =
     (case e of
        None \<Rightarrow> None
      | Some v \<Rightarrow> if i < length d \<and> d ! i \<noteq> Fin 0 then Some (fl_mul (d ! i) v) else None)"

definition ragged :: "'a list list \<Rightarrow> nat \<Rightarrow> bool" where
  "ragged rows n = (\<exists>r \<in> set rows. length r \<noteq> n)"

definition density_normalize :: "npfloat list list \<Rightarrow> matrix \<Rightarrow> error + matrix" where
  "density_normalize conn matrix =
     (let q = sum_axis0 conn;
          n = shape0 matrix;
          Q = map (fl_div (Fin 1)) q
      in case matrix of
           Ndarray rows \<Rightarrow>
             if ragged rows n then Inl DimensionMismatch
             else Inr (Ndarray (map (\<lambda>i. map (\<lambda>j. scale_dense Q j (scale_dense Q i (rows ! i ! j)))
                                             [0..<n]) [0..<n]))
         | Spmatrix rows \<Rightarrow>
             if ragged rows n then Inl DimensionMismatch
             else Inr (Spmatrix (map (\<lambda>i. map (\<lambda>j. scale_sparse Q j (scale_sparse Q i (rows ! i ! j)))
                                              [0..<n]) [0..<n])))"

subsection \<open>The normalization as the specification words it\<close>

text \<open>
  The degree of a node as the sum of its row, \<open>q[i] = sum_j conn[i,j]\<close>, the diagonal
  matrix \<open>Q = diag(1/q)\<close> and the matrix product \<open>Q \<cdot> matrix \<cdot> Q\<close>, over the reals.
\<close>

definition mat_mul :: "real list list \<Rightarrow> real list list \<Rightarrow> real list list" where
  "mat_mul A B =
     map (\<lambda>r. map (\<lambda>j. \<Sum>k<length r. r ! k * B ! k ! j)
                [0..<(case B of [] \<Rightarrow> 0 | b # _ \<Rightarrow> length b)]) A"

definition diag :: "real list \<Rightarrow> real list list" where
  "diag d = map (\<lambda>i. map (\<lambda>j. if i = j then d ! i else 0) [0..<length d]) [0..<length d]"

definition scaled_product :: "real list \<Rightarrow> real list list \<Rightarrow> real list list" where
  "scaled_product q M = mat_mul (mat_mul (diag (map inverse q)) M) (diag (map inverse q))"

definition row_degrees :: "real list list \<Rightarrow> real list" where
  "row_degrees conn = map sum_list conn"

definition column_degrees :: "real list list \<Rightarrow> real list" where
  "column_degrees conn =
     map (\<lambda>j. \<Sum>i<length conn. conn ! i ! j) [0..<(case conn of [] \<Rightarrow> 0 | r # _ \<Rightarrow> length r)]"

definition density_normalize_spec :: "real list list \<Rightarrow> real list list \<Rightarrow> real list list" where
  "density_normalize_spec conn M = scaled_product (row_degrees conn) M"

definition fin_matrix :: "real list list \<Rightarrow> npfloat list list" where
  "fin_matrix M = map (map Fin) M"

definition square :: "'a list list \<Rightarrow> nat \<Rightarrow> bool" where
  "square M n = (length M = n \<and> \<not> ragged M n)"


section \<open>The annotated data store\<close>

text \<open>
  The store (\<^verbatim>\<open>AnnData\<close>) holds the expression matrix \<open>X\<close> (cells by genes), the gene
  identifiers, an optional raw counterpart, named layers, the per-cell table \<open>obs\<close>, the
  per-gene table \<open>var\<close> and the unstructured mapping \<open>uns\<close>. A column of a table is an
  array of floats, of integers or of booleans.
\<close>

datatype column = FloatCol "npfloat list" | IntCol "int list" | BoolCol "bool list"

datatype CytoTRACEAggregation = MEAN | MEDIAN | GMEAN | HMEAN

record cytotrace_params =
  params_aggregation :: CytoTRACEAggregation
  params_layer :: "string option"
  params_use_raw :: bool
  params_n_pos_genes :: nat
  params_n_neg_genes :: nat

datatype uns_value = CytoTRACEParams cytotrace_params | UnsOther string

record raw_anndata =
  raw_X :: matrix
  raw_var_names :: "string list"

record anndata =
  X :: matrix
  var_names :: "string list"
  raw :: "raw_anndata option"
  layers :: "string \<rightharpoonup> matrix"
  obs :: "string \<rightharpoonup> column"
  var :: "string \<rightharpoonup> column"
  uns :: "string \<rightharpoonup> uns_value"

text \<open>
  \<^verbatim>\<open>Key.cytotrace(k)\<close>: the class \<^verbatim>\<open>Key\<close> is not among the sources; the
  docstring of \<^verbatim>\<open>compute_cytotrace\<close> gives the keys it builds, \<^verbatim>\<open>'ct_score'\<close>,
  \<^verbatim>\<open>'ct_pseudotime'\<close> and so on.
\<close>

definition Key_cytotrace :: "string \<Rightarrow> string" where
  "Key_cytotrace k = ''ct_'' @ k"

section \<open>Results with a log\<close>

text \<open>
  A computation leaves the messages it logged and either the exception it raised or its
  value. The messages logged before an exception stay in the log.
\<close>

datatype log_event =
    Warning_raw_is_None
  | Info_computing nat bool
  | Debug_correlating
  | Warning_top_genes bool int nat
  | Info_finish

type_synonym 'a res = "log_event list \<times> (error + 'a)"

definition return_res :: "'a \<Rightarrow> 'a res" where
  "return_res x = ([], Inr x)"

definition raise :: "error \<Rightarrow> 'a res" where
  "raise e = ([], Inl e)"

definition logg :: "log_event \<Rightarrow> unit res" where
  "logg ev = ([ev], Inr ())"

definition lift :: "error + 'a \<Rightarrow> 'a res" where
  "lift r = ([], r)"

definition bind_res :: "'a res \<Rightarrow> ('a \<Rightarrow> 'b res) \<Rightarrow> 'b res" where
  "bind_res m f =
     (case m of
        (l, Inl e) \<Rightarrow> (l, Inl e)
      | (l, Inr x) \<Rightarrow> (case f x of (l', r) \<Rightarrow> (l @ l', r)))"

section \<open>Library calls\<close>

text \<open>
  The functions of pandas, NumPy, SciPy and scikit-learn that the kernel calls, and the
  correlation routine \<^verbatim>\<open>_correlation_test\<close> (not among the sources), are parameters of
  the model. An aggregation along \<^verbatim>\<open>axis=1\<close> is given by what it computes for one row.
  \<open>sort_values\<close> takes \<^verbatim>\<open>ascending\<close> and a series, as a list of labelled values, and
  returns the sorted series.
\<close>

record pylib =
  correlation_test :: "matrix \<Rightarrow> int list \<Rightarrow> string list \<Rightarrow> (string \<times> npfloat) list"
  sort_values :: "bool \<Rightarrow> (string \<times> npfloat) list \<Rightarrow> (string \<times> npfloat) list"
  np_mean :: "npfloat list \<Rightarrow> npfloat"
  sp_mean :: "npfloat option list \<Rightarrow> npfloat"
  np_median :: "npfloat list \<Rightarrow> npfloat"
  csc_median_axis_0 :: "npfloat option list \<Rightarrow> npfloat"
  gmean :: "npfloat list \<Rightarrow> npfloat"
  hmean :: "npfloat list \<Rightarrow> npfloat"

text \<open>
  \<^verbatim>\<open>np.max\<close>, \<^verbatim>\<open>.max()\<close> and \<^verbatim>\<open>.min()\<close> of an array: a \<open>NaN\<close> in the array is
  the result, and the reduction of an empty array raises \<^verbatim>\<open>ValueError\<close>.
\<close>

definition fl_max :: "npfloat \<Rightarrow> npfloat \<Rightarrow> npfloat" where
  "fl_max a b = (if isnan a \<or> isnan b then NaN else if fl_less a b then b else a)"

definition fl_min :: "npfloat \<Rightarrow> npfloat \<Rightarrow> npfloat" where
  "fl_min a b = (if isnan a \<or> isnan b then NaN else if fl_less b a then b else a)"

definition np_max :: "npfloat list \<Rightarrow> error + npfloat" where
  "np_max a = (case a of [] \<Rightarrow> Inl ZeroSizeReduction | x # xs \<Rightarrow> Inr (foldl fl_max x xs))"

definition np_min :: "npfloat list \<Rightarrow> error + npfloat" where
  "np_min a = (case a of [] \<Rightarrow> Inl ZeroSizeReduction | x # xs \<Rightarrow> Inr (foldl fl_min x xs))"

section \<open>CytoTRACEKernel\<close>

text \<open>
  Modelled from the spec: \<^verbatim>\<open>CytoTRACEAggregation(aggregation)\<close>. The base class
  \<^verbatim>\<open>ModeEnum\<close> is not among the sources; the members take their lower-case names as
  values, and the specification has an unknown value fail with \<^verbatim>\<open>InvalidEnumError\<close>.
\<close>

definition CytoTRACEAggregation_of :: "string \<Rightarrow> error + CytoTRACEAggregation" where
  "CytoTRACEAggregation_of a =
     (if a = ''mean'' then Inr MEAN
      else if a = ''median'' then Inr MEDIAN
      else if a = ''gmean'' then Inr GMEAN
      else if a = ''hmean'' then Inr HMEAN
      else Inl (InvalidAggregation a))"

subsection \<open>\<^verbatim>\<open>_compute_score\<close>\<close>

text \<open>
  \<^verbatim>\<open>gene_corr.loc[top_genes]\<close>: the entries of the series with the given labels, label
  by label.
\<close>

definition loc :: "(string \<times> npfloat) list \<Rightarrow> string list \<Rightarrow> npfloat list" where
  "loc series labels = concat (map (\<lambda>g. map snd (filter (\<lambda>p. fst p = g) series)) labels)"

text \<open>
  Lines 147 to 166: the selection of the top genes; \<open>top_slice\<close> is the list of lines
  150 and 151. The flag of the warning and of the errors is \<^verbatim>\<open>ascending\<close>, which stands for the modifier (\<^verbatim>\<open>"negatively"\<close> when it is
  set, \<^verbatim>\<open>"positively"\<close> otherwise).
\<close>

definition top_slice ::
  "pylib \<Rightarrow> anndata \<Rightarrow> (string \<times> npfloat) list \<Rightarrow> bool \<Rightarrow> int \<Rightarrow> string list" where
  "top_slice lib adata gene_corr ascending n_top_genes =
     take (nat n_top_genes)
       (filter (\<lambda>g. g \<in> set (var_names adata)) (map fst (sort_values lib ascending gene_corr)))"

definition select_top_genes ::
  "pylib \<Rightarrow> anndata \<Rightarrow> (string \<times> npfloat) list \<Rightarrow> bool \<Rightarrow> int \<Rightarrow> string list res" where
  "select_top_genes lib adata gene_corr ascending n_top_genes =
     (if n_top_genes \<le> 0 then raise (TopGenesNotPositive ascending n_top_genes)
      else
        let top_genes = top_slice lib adata gene_corr ascending n_top_genes;
            invalid_genes = length (filter isnan (loc gene_corr top_genes))
        in if invalid_genes \<noteq> 0
           then raise (TopGenesContainNaN (length top_genes) ascending invalid_genes)
           else if length top_genes = 0 then raise NoGenesSelected
           else bind_res
                  (if int (length top_genes) \<noteq> n_top_genes
                   then logg (Warning_top_genes ascending n_top_genes (length top_genes))
                   else return_res ())
                  (\<lambda>_. return_res top_genes))"

text \<open>
  \<^verbatim>\<open>self.adata[:, top_genes]\<close> takes the columns of the named genes, and raises
  \<^verbatim>\<open>KeyError\<close> for a name that is not a gene of the store.
\<close>

definition index_of :: "string list \<Rightarrow> string \<Rightarrow> nat" where
  "index_of names g = length (takeWhile (\<lambda>x. x \<noteq> g) names)"

fun take_columns :: "nat list \<Rightarrow> matrix \<Rightarrow> matrix" where
  "take_columns js (Ndarray rows) = Ndarray (map (\<lambda>r. map (\<lambda>j. r ! j) js) rows)"
| "take_columns js (Spmatrix rows) = Spmatrix (map (\<lambda>r. map (\<lambda>j. r ! j) js) rows)"

text \<open>Lines 169 to 172: the expression of the top genes, from \<open>X\<close> or from a layer.\<close>

definition imputed_expression :: "anndata \<Rightarrow> string option \<Rightarrow> string list \<Rightarrow> error + matrix" where
  "imputed_expression adata layer top_genes =
     (case filter (\<lambda>g. g \<notin> set (var_names adata)) top_genes of
        g # _ \<Rightarrow> Inl (VarNameNotFound g)
      | [] \<Rightarrow>
          let js = map (index_of (var_names adata)) top_genes
          in if layer = Some ''X'' then Inr (take_columns js (X adata))
             else (case layer of
                     None \<Rightarrow> Inl (LayersKeyError None)
                   | Some l \<Rightarrow>
                       (case layers adata l of
                          None \<Rightarrow> Inl (LayersKeyError (Some l))
                        | Some M \<Rightarrow> Inr (take_columns js M))))"

text \<open>
  Lines 173 to 188: the aggregation, one value per cell. The last branch of the source
  (\<^verbatim>\<open>NotImplementedError\<close>) is for a fifth member of the enumeration, which has four.
\<close>

definition aggregate :: "pylib \<Rightarrow> CytoTRACEAggregation \<Rightarrow> matrix \<Rightarrow> npfloat list" where
  "aggregate lib aggregation imputed_exp =
     (let imputed_exp =
            (if issparse imputed_exp \<and> aggregation \<noteq> MEAN \<and> aggregation \<noteq> MEDIAN
             then Ndarray (toarray imputed_exp) else imputed_exp)
      in case aggregation of
           MEAN \<Rightarrow> (case imputed_exp of
                      Ndarray rows \<Rightarrow> map (np_mean lib) rows
                    | Spmatrix rows \<Rightarrow> map (sp_mean lib) rows)
         | MEDIAN \<Rightarrow> (case imputed_exp of
                        Spmatrix rows \<Rightarrow> map (csc_median_axis_0 lib) rows
                      | Ndarray rows \<Rightarrow> map (np_median lib) rows)
         | GMEAN \<Rightarrow> map (gmean lib) (toarray imputed_exp)
         | HMEAN \<Rightarrow> map (hmean lib) (toarray imputed_exp))"

definition compute_score ::
  "pylib \<Rightarrow> anndata \<Rightarrow> (string \<times> npfloat) list \<Rightarrow> string option \<Rightarrow> CytoTRACEAggregation
     \<Rightarrow> bool \<Rightarrow> int \<Rightarrow> (npfloat list \<times> string list) res" where
  "compute_score lib adata gene_corr layer aggregation ascending n_top_genes =
     bind_res (select_top_genes lib adata gene_corr ascending n_top_genes) (\<lambda>top_genes.
     bind_res (lift (imputed_expression adata layer top_genes)) (\<lambda>imputed_exp.
     return_res (aggregate lib aggregation imputed_exp, top_genes)))"


subsection \<open>\<^verbatim>\<open>compute_cytotrace\<close>\<close>

text \<open>
  \<^verbatim>\<open>(adata_mraw.X > 0).sum(axis=1)\<close>: the number of genes expressed in each cell.
\<close>

fun count_expressed :: "matrix \<Rightarrow> int list" where
  "count_expressed (Ndarray rows) =
     map (\<lambda>r. int (length (filter (\<lambda>v. fl_less (Fin 0) v) r))) rows"
| "count_expressed (Spmatrix rows) =
     map (\<lambda>r. int (length (filter (\<lambda>e. fl_less (Fin 0) (stored e)) r))) rows"

text \<open>
  \<^verbatim>\<open>self.adata.raw if use_raw else self.adata\<close>: the matrix and the genes that are
  counted and correlated.
\<close>

definition adata_mraw :: "bool \<Rightarrow> anndata \<Rightarrow> matrix \<times> string list" where
  "adata_mraw use_raw adata =
     (case (use_raw, raw adata) of
        (True, Some r) \<Rightarrow> (raw_X r, raw_var_names r)
      | _ \<Rightarrow> (X adata, var_names adata))"

text \<open>What the function has computed when it reaches line 298, and keeps for the writes.\<close>

record scores =
  s_score :: "npfloat list"
  s_num_exp_genes :: "int list"
  s_gene_corr :: "(string \<times> npfloat) list"
  s_pos_top_genes :: "string list"
  s_neg_top_genes :: "string list option"
  s_aggregation :: CytoTRACEAggregation
  s_use_raw :: bool

text \<open>
  Lines 256 to 265: the aggregation mode, the fallback of \<^verbatim>\<open>use_raw\<close> and the check
  of the layer name.
\<close>

definition check_arguments ::
  "string option \<Rightarrow> string \<Rightarrow> bool \<Rightarrow> anndata \<Rightarrow> (CytoTRACEAggregation \<times> bool) res" where
  "check_arguments layer aggregation use_raw adata =
     bind_res (lift (CytoTRACEAggregation_of aggregation)) (\<lambda>aggregation.
     bind_res (if use_raw \<and> raw adata = None
               then bind_res (logg Warning_raw_is_None) (\<lambda>_. return_res False)
               else return_res use_raw) (\<lambda>use_raw.
     bind_res (case layer of
                 None \<Rightarrow> return_res ()
               | Some l \<Rightarrow> if l \<noteq> ''X'' \<and> layers adata l = None
                          then raise (LayerNotFound l) else return_res ()) (\<lambda>_.
     return_res (aggregation, use_raw))))"

text \<open>
  Lines 267 to 281: the number of expressed genes per cell and the correlation of every
  gene with it. With a single cell, \<^verbatim>\<open>squeeze()\<close> leaves an array of no dimension and
  \<^verbatim>\<open>num_exp_genes[:, None]\<close> raises \<^verbatim>\<open>IndexError\<close>.
\<close>

definition correlate :: "pylib \<Rightarrow> bool \<Rightarrow> anndata \<Rightarrow> (int list \<times> (string \<times> npfloat) list) res" where
  "correlate lib use_raw adata =
     (let (mraw_X, mraw_var_names) = adata_mraw use_raw adata in
      bind_res (logg (Info_computing (length mraw_var_names) (length mraw_var_names < 10000))) (\<lambda>_.
      let num_exp_genes = count_expressed mraw_X in
      bind_res (logg Debug_correlating) (\<lambda>_.
      bind_res (if length num_exp_genes = 1 then raise TooManyIndices else return_res ()) (\<lambda>_.
      return_res (num_exp_genes, correlation_test lib mraw_X num_exp_genes mraw_var_names)))))"

text \<open>
  Lines 283 to 298: the score of the positively correlated genes and, when
  \<^verbatim>\<open>n_neg_genes\<close> is given, its sum with the inverted score of the negatively
  correlated ones. Both scores have one value per row of the same matrix, so that the
  sum of line 298 is taken value by value.
\<close>

definition combine ::
  "pylib \<Rightarrow> anndata \<Rightarrow> (string \<times> npfloat) list \<Rightarrow> string option \<Rightarrow> CytoTRACEAggregation
     \<Rightarrow> int \<Rightarrow> int option \<Rightarrow> (npfloat list \<times> string list \<times> string list option) res" where
  "combine lib adata gene_corr layer aggregation n_pos_genes n_neg_genes =
     bind_res (compute_score lib adata gene_corr layer aggregation False n_pos_genes)
       (\<lambda>(cytotrace_score, pos_top_genes).
     case n_neg_genes of
       None \<Rightarrow> return_res (cytotrace_score, pos_top_genes, None)
     | Some n \<Rightarrow>
         bind_res (compute_score lib adata gene_corr layer aggregation True n)
           (\<lambda>(inv_score, neg_top_genes).
         bind_res (lift (np_max inv_score)) (\<lambda>m.
         return_res (map (\<lambda>(s, i). fl_add s (fl_sub m i)) (zip cytotrace_score inv_score),
                     pos_top_genes, Some neg_top_genes))))"

text \<open>Lines 256 to 298 together.\<close>

definition combined_score ::
  "pylib \<Rightarrow> string option \<Rightarrow> string \<Rightarrow> bool \<Rightarrow> int \<Rightarrow> int option \<Rightarrow> anndata \<Rightarrow> scores res" where
  "combined_score lib layer aggregation use_raw n_pos_genes n_neg_genes adata =
     bind_res (check_arguments layer aggregation use_raw adata) (\<lambda>(aggregation, use_raw).
     bind_res (correlate lib use_raw adata) (\<lambda>(num_exp_genes, gene_corr).
     bind_res (combine lib adata gene_corr layer aggregation n_pos_genes n_neg_genes)
       (\<lambda>(cytotrace_score, pos_top_genes, neg_top_genes).
     return_res \<lparr>s_score = cytotrace_score, s_num_exp_genes = num_exp_genes,
                 s_gene_corr = gene_corr, s_pos_top_genes = pos_top_genes,
                 s_neg_top_genes = neg_top_genes, s_aggregation = aggregation,
                 s_use_raw = use_raw\<rparr>)))"

text \<open>Lines 299 and 300: the normalization of the score by its minimum and its maximum.\<close>

definition minmax_normalize :: "npfloat list \<Rightarrow> error + npfloat list" where
  "minmax_normalize cytotrace_score =
     (case np_min cytotrace_score of
        Inl e \<Rightarrow> Inl e
      | Inr lo \<Rightarrow>
          let cytotrace_score = map (\<lambda>s. fl_sub s lo) cytotrace_score
          in (case np_max cytotrace_score of
                Inl e \<Rightarrow> Inl e
              | Inr hi \<Rightarrow> Inr (map (\<lambda>s. fl_div s hi) cytotrace_score)))"

text \<open>
  Lines 302 to 317: the writes to the store, in the order of the source. A series
  assigned to a column of \<open>var\<close> is aligned to the genes of the store by its labels, and
  a gene without an entry gets \<open>NaN\<close>.
\<close>

definition align :: "(string \<times> npfloat) list \<Rightarrow> string list \<Rightarrow> npfloat list" where
  "align series index = map (\<lambda>g. case map_of series g of None \<Rightarrow> NaN | Some v \<Rightarrow> v) index"

definition set_obs :: "string \<Rightarrow> column \<Rightarrow> anndata \<Rightarrow> anndata" where
  "set_obs key col adata = adata\<lparr>obs := (obs adata)(key \<mapsto> col)\<rparr>"

definition set_var :: "string \<Rightarrow> column \<Rightarrow> anndata \<Rightarrow> anndata" where
  "set_var key col adata = adata\<lparr>var := (var adata)(key \<mapsto> col)\<rparr>"

text \<open>\<^verbatim>\<open>self.adata.var.loc[genes, key] = True\<close>\<close>

definition set_var_loc_True :: "string list \<Rightarrow> string \<Rightarrow> anndata \<Rightarrow> anndata" where
  "set_var_loc_True genes key adata =
     (case var adata key of
        Some (BoolCol flags) \<Rightarrow>
          set_var key (BoolCol (map (\<lambda>(g, b). if g \<in> set genes then True else b)
                                 (zip (var_names adata) flags))) adata
      | _ \<Rightarrow> adata)"

definition persist :: "string option \<Rightarrow> scores \<Rightarrow> anndata \<Rightarrow> anndata" where
  "persist layer r adata =
     (let adata = set_obs (Key_cytotrace ''score'') (FloatCol (s_score r)) adata;
          adata = set_obs (Key_cytotrace ''pseudotime'')
                    (FloatCol (map (\<lambda>s. fl_sub (Fin 1) s) (s_score r))) adata;
          adata = set_obs (Key_cytotrace ''num_exp_genes'') (IntCol (s_num_exp_genes r)) adata;
          adata = set_var (Key_cytotrace ''gene_corr'')
                    (FloatCol (align (s_gene_corr r) (var_names adata))) adata;
          adata = set_var (Key_cytotrace ''pos_correlates'')
                    (BoolCol (replicate (length (var_names adata)) False)) adata;
          adata = set_var_loc_True (s_pos_top_genes r) (Key_cytotrace ''pos_correlates'') adata;
          adata = set_var (Key_cytotrace ''neg_correlates'')
                    (BoolCol (replicate (length (var_names adata)) False)) adata;
          adata = (case s_neg_top_genes r of
                     None \<Rightarrow> adata
                   | Some genes \<Rightarrow> set_var_loc_True genes (Key_cytotrace ''neg_correlates'') adata)
      in adata\<lparr>uns := (uns adata)(Key_cytotrace ''params'' \<mapsto>
           CytoTRACEParams \<lparr>params_aggregation = s_aggregation r, params_layer = layer,
             params_use_raw = s_use_raw r, params_n_pos_genes = length (s_pos_top_genes r),
             params_n_neg_genes = (case s_neg_top_genes r of None \<Rightarrow> 0 | Some genes \<Rightarrow> length genes)\<rparr>)\<rparr>)"

text \<open>
  The whole function: the log, the exception or \<^verbatim>\<open>None\<close>, and the store it leaves.
\<close>

definition compute_cytotrace ::
  "pylib \<Rightarrow> string option \<Rightarrow> string \<Rightarrow> bool \<Rightarrow> int \<Rightarrow> int option \<Rightarrow> anndata
     \<Rightarrow> log_event list \<times> (error + unit) \<times> anndata" where
  "compute_cytotrace lib layer aggregation use_raw n_pos_genes n_neg_genes adata =
     (case bind_res (combined_score lib layer aggregation use_raw n_pos_genes n_neg_genes adata)
             (\<lambda>r. bind_res (lift (minmax_normalize (s_score r)))
                    (\<lambda>s. return_res (r\<lparr>s_score := s\<rparr>))) of
        (msgs, Inl e) \<Rightarrow> (msgs, Inl e, adata)
      | (msgs, Inr r) \<Rightarrow> (msgs @ [Info_finish], Inr (), persist layer r adata))"


section \<open>What the claims speak of\<close>


text \<open>
  The requested direction: ascending for the negatively correlated genes, descending
  for the positively correlated ones.
\<close>

definition in_direction :: "bool \<Rightarrow> npfloat \<Rightarrow> npfloat \<Rightarrow> bool" where
  "in_direction ascending a b = (if ascending then fl_le a b else fl_le b a)"

text \<open>
  What pandas documents of \<^verbatim>\<open>sort_values\<close> with its defaults: the result has the
  entries of the series, the defined values come in the requested direction, and the
  undefined ones come last. The default sorting algorithm (\<^verbatim>\<open>quicksort\<close>) is
  documented as not stable.
\<close>

definition values_in_order :: "bool \<Rightarrow> npfloat list \<Rightarrow> bool" where
  "values_in_order ascending vs =
     sorted_wrt (\<lambda>a b. (isnan a \<longrightarrow> isnan b) \<and> (\<not> isnan b \<longrightarrow> in_direction ascending a b)) vs"

definition sorts :: "pylib \<Rightarrow> bool \<Rightarrow> (string \<times> npfloat) list \<Rightarrow> bool" where
  "sorts lib ascending series =
     (mset (sort_values lib ascending series) = mset series
      \<and> values_in_order ascending (map snd (sort_values lib ascending series)))"


text \<open>The correlations that a run computes, from the raw matrix when it uses it.\<close>

definition run_gene_corr :: "pylib \<Rightarrow> bool \<Rightarrow> anndata \<Rightarrow> (string \<times> npfloat) list" where
  "run_gene_corr lib use_raw adata =
     (let (mraw_X, mraw_var_names) = adata_mraw (use_raw \<and> raw adata \<noteq> None) adata
      in correlation_test lib mraw_X (count_expressed mraw_X) mraw_var_names)"

definition stored_real :: "real option \<Rightarrow> real" where
  "stored_real e = (case e of None \<Rightarrow> 0 | Some v \<Rightarrow> v)"

section \<open>An instance of the library calls\<close>

text \<open>
  Exact versions of the library calls, for the examples: Pearson's correlation with the
  number of expressed genes, the mean, the median, the geometric and the harmonic mean
  of a row, and two sorts by insertion. \<open>stable_sort_values\<close> keeps equal values in the
  order of the series in both directions; \<open>reversing_sort_values\<close> gets the descending
  order by reversing the ascending one. Both put the undefined values last.
\<close>

fun insort_value :: "(string \<times> npfloat) \<Rightarrow> (string \<times> npfloat) list \<Rightarrow> (string \<times> npfloat) list" where
  "insort_value p [] = [p]"
| "insort_value p (q # qs) =
     (if fl_less (snd q) (snd p) then q # insort_value p qs else p # q # qs)"

definition argsort :: "(string \<times> npfloat) list \<Rightarrow> (string \<times> npfloat) list" where
  "argsort series = foldr insort_value series []"

definition stable_sort_values :: "bool \<Rightarrow> (string \<times> npfloat) list \<Rightarrow> (string \<times> npfloat) list" where
  "stable_sort_values ascending series =
     (let good = filter (\<lambda>p. \<not> isnan (snd p)) series;
          bad = filter (\<lambda>p. isnan (snd p)) series
      in (if ascending then argsort good else rev (argsort (rev good))) @ bad)"

definition reversing_sort_values :: "bool \<Rightarrow> (string \<times> npfloat) list \<Rightarrow> (string \<times> npfloat) list" where
  "reversing_sort_values ascending series =
     (let good = filter (\<lambda>p. \<not> isnan (snd p)) series;
          bad = filter (\<lambda>p. isnan (snd p)) series
      in (if ascending then argsort good else rev (argsort good)) @ bad)"

definition mean_row :: "npfloat list \<Rightarrow> npfloat" where
  "mean_row r = fl_div (foldr fl_add r (Fin 0)) (Fin (real (length r)))"

definition median_row :: "npfloat list \<Rightarrow> npfloat" where
  "median_row r =
     (let s = map snd (argsort (map (Pair []) r)); n = length r
      in if list_ex isnan r \<or> n = 0 then NaN
         else if odd n then s ! (n div 2)
         else mean_row [s ! (n div 2 - 1), s ! (n div 2)])"

definition hmean_row :: "npfloat list \<Rightarrow> npfloat" where
  "hmean_row r = fl_div (Fin (real (length r))) (foldr fl_add (map (fl_div (Fin 1)) r) (Fin 0))"

fun positive_value :: "npfloat \<Rightarrow> real option" where
  "positive_value (Fin x) = (if 0 < x then Some x else None)"
| "positive_value _ = None"

definition gmean_row :: "npfloat list \<Rightarrow> npfloat" where
  "gmean_row r =
     (if r \<noteq> [] \<and> list_all (\<lambda>v. positive_value v \<noteq> None) r
      then Fin (root (length r) (prod_list (map (\<lambda>v. the (positive_value v)) r)))
      else NaN)"

definition pearson :: "npfloat list \<Rightarrow> real list \<Rightarrow> npfloat" where
  "pearson xs ys =
     (if list_all isfinite xs \<and> xs \<noteq> [] \<and> length xs = length ys then
        let us = map (\<lambda>v. case v of Fin x \<Rightarrow> x | _ \<Rightarrow> 0) xs;
            mu = sum_list us / real (length us);
            mv = sum_list ys / real (length ys);
            suv = (\<Sum>(u, v)\<leftarrow>zip us ys. (u - mu) * (v - mv));
            suu = (\<Sum>u\<leftarrow>us. (u - mu) * (u - mu));
            svv = (\<Sum>v\<leftarrow>ys. (v - mv) * (v - mv))
        in if suu * svv = 0 then NaN else Fin (suv / sqrt (suu * svv))
      else NaN)"

definition pearson_correlation_test ::
  "matrix \<Rightarrow> int list \<Rightarrow> string list \<Rightarrow> (string \<times> npfloat) list" where
  "pearson_correlation_test M counts names =
     map (\<lambda>(j, g). (g, pearson (map (\<lambda>r. r ! j) (toarray M)) (map real_of_int counts)))
       (zip [0..<length names] names)"

definition exact_lib :: pylib where
  "exact_lib =
     \<lparr>correlation_test = pearson_correlation_test, sort_values = stable_sort_values,
      np_mean = mean_row, sp_mean = (\<lambda>r. mean_row (map stored r)),
      np_median = median_row, csc_median_axis_0 = (\<lambda>r. median_row (map stored r)),
      gmean = gmean_row, hmean = hmean_row\<rparr>"

definition reversing_lib :: pylib where
  "reversing_lib = exact_lib\<lparr>sort_values := reversing_sort_values\<rparr>"

section \<open>A small store\<close>

text \<open>
  Two cells and four genes. The first gene is expressed alike in both cells, so that its
  correlation is undefined; the second and the third rise with the number of expressed
  genes (2 and 4) and the fourth falls. The layer \<^verbatim>\<open>Ms\<close> is the same in both cells.
  The two flag columns of \<open>var\<close> are set, as a previous run could have left them.
\<close>

definition small_adata :: anndata where
  "small_adata =
     \<lparr>X = Ndarray [[Fin 1, Fin 0, Fin 0, Fin 5], [Fin 1, Fin 3, Fin 4, Fin 2]],
      var_names = [''g1'', ''g2'', ''g3'', ''g4''],
      raw = None,
      layers = [''Ms'' \<mapsto> Ndarray [[Fin 1, Fin 1, Fin 1, Fin 1], [Fin 1, Fin 1, Fin 1, Fin 1]]],
      obs = Map.empty,
      var = [''ct_pos_correlates'' \<mapsto> BoolCol [True, True, True, True],
             ''ct_neg_correlates'' \<mapsto> BoolCol [True, True, True, True]],
      uns = Map.empty\<rparr>"

definition small_gene_corr :: "(string \<times> npfloat) list" where
  "small_gene_corr = [(''g1'', NaN), (''g2'', Fin 1), (''g3'', Fin 1), (''g4'', Fin (- 1))]"


section \<open>Properties of the density normalization\<close>

lemma foldr_fl_add_Fin: "foldr fl_add (map Fin xs) (Fin 0) = Fin (sum_list xs)"
  by (induction xs) simp_all

lemma square_ncols: "square M n \<Longrightarrow> (case M of [] \<Rightarrow> 0 | r # _ \<Rightarrow> length r) = n"
  by (cases M) (auto simp: square_def ragged_def)

lemma square_row: "square M n \<Longrightarrow> i < n \<Longrightarrow> length (M ! i) = n"
  by (auto simp: square_def ragged_def)

lemma sum_axis0_fin:
  assumes "square conn n"
  shows "sum_axis0 (fin_matrix conn) = map Fin (column_degrees conn)"
proof -
  have len: "(case fin_matrix conn of [] \<Rightarrow> 0 | r # _ \<Rightarrow> length r) = n"
    using square_ncols[OF assms] by (cases conn) (simp_all add: fin_matrix_def)
  have col: "foldr fl_add (map (\<lambda>row. row ! j) (fin_matrix conn)) (Fin 0)
             = Fin (\<Sum>i<length conn. conn ! i ! j)" if "j < n" for j
  proof -
    have "map (\<lambda>row. row ! j) (fin_matrix conn) = map Fin (map (\<lambda>row. row ! j) conn)"
      using assms that by (auto simp: fin_matrix_def square_def ragged_def)
    moreover have "sum_list (map (\<lambda>row. row ! j) conn) = (\<Sum>i<length conn. conn ! i ! j)"
      by (simp add: sum_list_sum_nth atLeast0LessThan)
    ultimately show ?thesis
      using foldr_fl_add_Fin[of "map (\<lambda>row. row ! j) conn"] by simp
  qed
  show ?thesis
    unfolding sum_axis0_def column_degrees_def len square_ncols[OF assms]
    by (simp add: col)
qed

lemma mat_mul_diag_left:
  assumes "square M n" "length d = n"
  shows "mat_mul (diag d) M = map (\<lambda>i. map (\<lambda>j. d ! i * M ! i ! j) [0..<n]) [0..<n]"
proof -
  have "(\<Sum>k<n. (if i = k then d ! i else 0) * M ! k ! j) = d ! i * M ! i ! j" if "i < n" for i j
  proof -
    have "(\<Sum>k<n. (if i = k then d ! i else 0) * M ! k ! j)
          = (\<Sum>k<n. if k = i then d ! i * M ! i ! j else 0)"
      by (rule sum.cong) auto
    also have "\<dots> = d ! i * M ! i ! j" using that by simp
    finally show ?thesis .
  qed
  then show ?thesis
    using assms unfolding mat_mul_def diag_def square_ncols[OF assms(1)]
    by simp
qed

lemma diag_ncols: "(case diag d of [] \<Rightarrow> 0 | b # _ \<Rightarrow> length b) = length d"
  by (cases d) (simp_all add: diag_def upt_conv_Cons del: upt_Suc)

lemma mat_mul_diag_right:
  assumes "square A n" "length d = n"
  shows "mat_mul A (diag d) = map (\<lambda>i. map (\<lambda>j. A ! i ! j * d ! j) [0..<n]) [0..<n]"
proof -
  have cell: "(\<Sum>k<n. A ! i ! k * diag d ! k ! j) = A ! i ! j * d ! j" if "j < n" for i j
  proof -
    have "(\<Sum>k<n. A ! i ! k * diag d ! k ! j) = (\<Sum>k<n. if k = j then A ! i ! j * d ! j else 0)"
      using assms(2) that by (intro sum.cong) (auto simp: diag_def)
    also have "\<dots> = A ! i ! j * d ! j" using that by simp
    finally show ?thesis .
  qed
  have "mat_mul A (diag d) = map (\<lambda>r. map (\<lambda>j. \<Sum>k<length r. r ! k * diag d ! k ! j) [0..<n]) A"
    unfolding mat_mul_def diag_ncols assms(2) ..
  also have "\<dots> = map (\<lambda>i. map (\<lambda>j. \<Sum>k<length (A ! i). A ! i ! k * diag d ! k ! j) [0..<n]) [0..<n]"
    using assms(1) by (auto simp: square_def intro!: nth_equalityI)
  also have "\<dots> = map (\<lambda>i. map (\<lambda>j. A ! i ! j * d ! j) [0..<n]) [0..<n]"
    using assms(1) by (auto simp: square_row cell)
  finally show ?thesis .
qed

lemma scaled_product_cells:
  assumes "square M n" "length q = n"
  shows "scaled_product q M
         = map (\<lambda>i. map (\<lambda>j. inverse (q ! i) * M ! i ! j * inverse (q ! j)) [0..<n]) [0..<n]"
proof -
  let ?d = "map inverse q"
  let ?A = "map (\<lambda>i. map (\<lambda>j. ?d ! i * M ! i ! j) [0..<n]) [0..<n]"
  have sqA: "square ?A n" by (auto simp: square_def ragged_def)
  have "scaled_product q M = mat_mul ?A (diag ?d)"
    unfolding scaled_product_def using mat_mul_diag_left[OF assms(1), of ?d] assms(2) by simp
  also have "\<dots> = map (\<lambda>i. map (\<lambda>j. ?A ! i ! j * ?d ! j) [0..<n]) [0..<n]"
    using mat_mul_diag_right[OF sqA, of ?d] assms(2) by simp
  also have "\<dots> = map (\<lambda>i. map (\<lambda>j. inverse (q ! i) * M ! i ! j * inverse (q ! j)) [0..<n]) [0..<n]"
    using assms(2) by simp
  finally show ?thesis .
qed

lemma column_degrees_length: "square conn n \<Longrightarrow> length (column_degrees conn) = n"
  by (simp add: column_degrees_def square_ncols)

text \<open>
  The degrees of a symmetric matrix: the sums of the columns are the sums of the rows.
\<close>

lemma column_degrees_symmetric:
  assumes "square conn n" and "\<And>i j. i < n \<Longrightarrow> j < n \<Longrightarrow> conn ! i ! j = conn ! j ! i"
  shows "column_degrees conn = row_degrees conn"
proof (rule nth_equalityI)
  show "length (column_degrees conn) = length (row_degrees conn)"
    using assms(1) by (simp add: column_degrees_length row_degrees_def square_def)
next
  fix j assume "j < length (column_degrees conn)"
  then have j: "j < n" using column_degrees_length[OF assms(1)] by simp
  have ln: "length conn = n" using assms(1) by (simp add: square_def)
  have "column_degrees conn ! j = (\<Sum>i<n. conn ! i ! j)"
    using j ln by (simp add: column_degrees_def square_ncols[OF assms(1)])
  also have "\<dots> = (\<Sum>i<n. conn ! j ! i)"
    using assms(2) j by (intro sum.cong) auto
  also have "\<dots> = sum_list (conn ! j)"
    using square_row[OF assms(1) j] by (simp add: sum_list_sum_nth atLeast0LessThan)
  also have "\<dots> = row_degrees conn ! j"
    using j ln by (simp add: row_degrees_def)
  finally show "column_degrees conn ! j = row_degrees conn ! j" .
qed

text \<open>
  C2, as the code has it. The degree vector is the sum along \<^verbatim>\<open>axis=0\<close>, that is
  \<open>q[j] = sum_i conn[i,j]\<close>, the sums of the columns of the stored connectivities. For
  finite connectivities without a zero degree and a square matrix of the same size,
  dense or sparse, \<open>density_normalize\<close> returns \<open>Q \<cdot> matrix \<cdot> Q\<close> with \<open>Q = diag(1/q)\<close>.
\<close>

theorem density_normalize_column_degrees:
  assumes "square conn n" and "square M n" and "square S n"
    and "\<forall>d \<in> set (column_degrees conn). d \<noteq> 0"
  shows "density_normalize (fin_matrix conn) (Ndarray (fin_matrix M))
           = Inr (Ndarray (fin_matrix (scaled_product (column_degrees conn) M)))
       \<and> map_sum id toarray
           (density_normalize (fin_matrix conn) (Spmatrix (map (map (map_option Fin)) S)))
           = Inr (fin_matrix (scaled_product (column_degrees conn) (map (map stored_real) S)))"
proof -
  define q where "q = column_degrees conn"
  define Q where "Q = map (fl_div (Fin 1)) (map Fin q)"
  have lq: "length q = n" unfolding q_def by (rule column_degrees_length[OF assms(1)])
  have lQ: "length Q = n" unfolding Q_def using lq by simp
  have q0: "q ! i \<noteq> 0" if "i < n" for i
    using that lq assms(4) unfolding q_def by (metis nth_mem)
  have Qi: "Q ! i = Fin (inverse (q ! i))" if "i < n" for i
    using that lq q0[OF that] unfolding Q_def by (simp add: divide_inverse)
  have Qne: "Q ! i \<noteq> Fin 0" if "i < n" for i
    using q0[OF that] by (simp add: Qi[OF that])
  have dense: "scale_dense Q j (scale_dense Q i (Fin x)) = Fin (inverse (q ! i) * x * inverse (q ! j))"
    if "i < n" "j < n" for i j x
    using that by (simp add: scale_dense_def lQ Qi mult.commute mult.left_commute)
  have sparse: "stored (scale_sparse Q j (scale_sparse Q i (map_option Fin e)))
                 = Fin (inverse (q ! i) * stored_real e * inverse (q ! j))"
    if "i < n" "j < n" for i j e
    using that by (cases e) (simp_all add: scale_sparse_def stored_def stored_real_def lQ Qi Qne
        mult.commute mult.left_commute)
  have nr: "\<not> ragged (fin_matrix M) n" "length (fin_matrix M) = n"
    using assms(2) by (auto simp: square_def ragged_def fin_matrix_def)
  have Mij: "fin_matrix M ! i ! j = Fin (M ! i ! j)" if "i < n" "j < n" for i j
    using that assms(2) by (simp add: fin_matrix_def square_def square_row[OF assms(2)])
  let ?S = "map (map (map_option Fin)) S"
  let ?R = "map (map stored_real) S"
  have nrS: "\<not> ragged ?S n" "length ?S = n" "square ?R n"
    using assms(3) by (auto simp: square_def ragged_def)
  have "density_normalize (fin_matrix conn) (Ndarray (fin_matrix M))
           = Inr (Ndarray (fin_matrix (scaled_product q M)))"
    unfolding density_normalize_def sum_axis0_fin[OF assms(1)] scaled_product_cells[OF assms(2) lq]
      q_def[symmetric] Q_def[symmetric] Let_def
    using nr by (simp add: fin_matrix_def[of "map _ _"] Mij dense)
  moreover have "map_sum id toarray (density_normalize (fin_matrix conn) (Spmatrix ?S))
           = Inr (fin_matrix (scaled_product q ?R))"
    unfolding density_normalize_def sum_axis0_fin[OF assms(1)] scaled_product_cells[OF nrS(3) lq]
      q_def[symmetric] Q_def[symmetric] Let_def
    using nrS(1,2) assms(3)
    by (simp add: fin_matrix_def[of "map _ _"] square_row[OF assms(3)] sparse square_def)
  ultimately show ?thesis unfolding q_def by simp
qed

theorem density_normalize_column_degrees_witness:
  "density_normalize (fin_matrix [[1, 2], [0, 1]]) (Ndarray (fin_matrix [[1, 0], [0, 1]]))
     = Inr (Ndarray (fin_matrix (scaled_product (column_degrees [[1, 2], [0, 1]]) [[1, 0], [0, 1]])))
   \<and> map_sum id toarray
       (density_normalize (fin_matrix [[1, 2], [0, 1]])
          (Spmatrix (map (map (map_option Fin)) [[Some 1, None], [None, Some 1]])))
     = Inr (fin_matrix (scaled_product (column_degrees [[1, 2], [0, 1]])
              (map (map stored_real) [[Some 1, None], [None, Some 1]])))"
  using density_normalize_column_degrees
    [of "[[1, 2], [0, 1]]" 2 "[[1, 0], [0, 1]]" "[[Some 1, None], [None, Some 1]]"]
  by (simp add: square_def ragged_def column_degrees_def lessThan_Suc numeral_2_eq_2
      upt_conv_Cons del: upt_Suc)

text \<open>
  C2 as the specification words it, with the sums of the rows, fails for connectivities
  that are not symmetric: the code scales by the sums of the columns.
\<close>

theorem density_normalize_row_degrees_counterexample:
  "density_normalize (fin_matrix [[1, 2], [0, 1]]) (Ndarray (fin_matrix [[1, 0], [0, 1]]))
     = Inr (Ndarray (fin_matrix [[1, 0], [0, 1 / 9]]))
   \<and> density_normalize_spec [[1, 2], [0, 1]] [[1, 0], [0, 1]] = [[1 / 9, 0], [0, 1]]"
  by (simp add: density_normalize_def density_normalize_spec_def scaled_product_def mat_mul_def
      diag_def row_degrees_def sum_axis0_def fin_matrix_def ragged_def scale_dense_def
      upt_conv_Cons lessThan_Suc numeral_2_eq_2 del: upt_Suc)






section \<open>Properties of the CytoTRACE score\<close>

subsection \<open>Results with a log\<close>

lemma bind_res_Inr:
  "bind_res m f = (l, Inr y) \<longleftrightarrow> (\<exists>l1 x l2. m = (l1, Inr x) \<and> f x = (l2, Inr y) \<and> l = l1 @ l2)"
  by (cases m; cases "snd m") (auto simp: bind_res_def split: prod.splits)

lemma bind_res_Inl:
  "bind_res m f = (l, Inl e) \<longleftrightarrow>
     m = (l, Inl e) \<or> (\<exists>l1 x l2. m = (l1, Inr x) \<and> f x = (l2, Inl e) \<and> l = l1 @ l2)"
  by (cases m; cases "snd m") (auto simp: bind_res_def split: prod.splits)

lemma bind_res_InrE:
  assumes "bind_res m f = (l, Inr y)"
  obtains l1 x l2 where "m = (l1, Inr x)" "f x = (l2, Inr y)" "l = l1 @ l2"
  using assms by (auto simp: bind_res_Inr)

lemma bind_res_simps:
  "bind_res (l, Inl e) f = (l, Inl e)"
  "bind_res (l, Inr x) f = (l @ fst (f x), snd (f x))"
  by (simp_all add: bind_res_def split: prod.splits)

lemma check_arguments_eq:
  "check_arguments layer aggregation use_raw adata =
     (case CytoTRACEAggregation_of aggregation of
        Inl e \<Rightarrow> ([], Inl e)
      | Inr a \<Rightarrow>
          (if use_raw \<and> raw adata = None then [Warning_raw_is_None] else [],
           case layer of
             None \<Rightarrow> Inr (a, use_raw \<and> raw adata \<noteq> None)
           | Some l \<Rightarrow> if l \<noteq> ''X'' \<and> layers adata l = None then Inl (LayerNotFound l)
                      else Inr (a, use_raw \<and> raw adata \<noteq> None)))"
  by (cases "CytoTRACEAggregation_of aggregation"; cases layer)
     (auto simp: check_arguments_def lift_def logg_def return_res_def raise_def bind_res_simps)

lemma correlate_eq:
  "correlate lib use_raw adata =
     ([Info_computing (length (snd (adata_mraw use_raw adata)))
         (length (snd (adata_mraw use_raw adata)) < 10000), Debug_correlating],
      if length (count_expressed (fst (adata_mraw use_raw adata))) = 1 then Inl TooManyIndices
      else Inr (count_expressed (fst (adata_mraw use_raw adata)),
                correlation_test lib (fst (adata_mraw use_raw adata))
                  (count_expressed (fst (adata_mraw use_raw adata)))
                  (snd (adata_mraw use_raw adata))))"
  by (simp add: correlate_def split_def Let_def logg_def return_res_def raise_def bind_res_simps)

lemma adata_mraw_effective:
  "adata_mraw (use_raw \<and> raw adata \<noteq> None) adata = adata_mraw use_raw adata"
  "adata_mraw (use_raw \<and> (\<exists>y. raw adata = Some y)) adata = adata_mraw use_raw adata"
  by (auto simp: adata_mraw_def split: option.splits bool.splits)

lemma run_gene_corr_eq:
  "run_gene_corr lib use_raw adata =
     correlation_test lib (fst (adata_mraw use_raw adata))
       (count_expressed (fst (adata_mraw use_raw adata))) (snd (adata_mraw use_raw adata))"
  unfolding run_gene_corr_def adata_mraw_effective(1) by (simp add: split_def Let_def)

lemma combine_Inr:
  assumes "combine lib adata gc layer a n_pos n_neg = (l, Inr (s, pos, neg))"
  shows "\<exists>w1 p. compute_score lib adata gc layer a False n_pos = (w1, Inr (p, pos)) \<and>
        (case n_neg of
           None \<Rightarrow> s = p \<and> neg = None \<and> l = w1
         | Some n \<Rightarrow> (\<exists>w2 inv negs hi.
              compute_score lib adata gc layer a True n = (w2, Inr (inv, negs)) \<and>
              np_max inv = Inr hi \<and>
              s = map (\<lambda>(s, i). fl_add s (fl_sub hi i)) (zip p inv) \<and>
              neg = Some negs \<and> l = w1 @ w2))"
proof -
  from assms[unfolded combine_def] obtain w1 x k1
    where 1: "compute_score lib adata gc layer a False n_pos = (w1, Inr x)"
      and 2: "(case x of (cytotrace_score, pos_top_genes) \<Rightarrow>
                case n_neg of
                  None \<Rightarrow> return_res (cytotrace_score, pos_top_genes, None)
                | Some n \<Rightarrow>
                    bind_res (compute_score lib adata gc layer a True n)
                      (\<lambda>(inv_score, neg_top_genes).
                    bind_res (lift (np_max inv_score)) (\<lambda>m.
                    return_res (map (\<lambda>(s, i). fl_add s (fl_sub m i)) (zip cytotrace_score inv_score),
                                pos_top_genes, Some neg_top_genes)))) = (k1, Inr (s, pos, neg))"
      and l: "l = w1 @ k1"
    by (rule bind_res_InrE)
  obtain p pos' where x: "x = (p, pos')" by (cases x)
  show ?thesis
  proof (cases n_neg)
    case None
    with 1 2 x l show ?thesis by (auto simp: return_res_def)
  next
    case (Some n)
    from 2[unfolded x prod.case Some option.case] obtain w2 y k2
      where 3: "compute_score lib adata gc layer a True n = (w2, Inr y)"
        and 4: "(case y of (inv_score, neg_top_genes) \<Rightarrow>
                    bind_res (lift (np_max inv_score)) (\<lambda>m.
                    return_res (map (\<lambda>(s, i). fl_add s (fl_sub m i)) (zip p inv_score),
                                pos', Some neg_top_genes))) = (k2, Inr (s, pos, neg))"
        and k1: "k1 = w2 @ k2"
      by (rule bind_res_InrE)
    obtain inv negs where y: "y = (inv, negs)" by (cases y)
    from 4[unfolded y prod.case] obtain w3 hi k3
      where 5: "lift (np_max inv) = (w3, Inr hi)"
        and 6: "return_res (map (\<lambda>(s, i). fl_add s (fl_sub hi i)) (zip p inv), pos', Some negs)
                 = (k3, Inr (s, pos, neg))"
        and k2: "k2 = w3 @ k3"
      by (rule bind_res_InrE)
    from 5 6 have "np_max inv = Inr hi" "w3 = []" "k3 = []"
      "s = map (\<lambda>(s, i). fl_add s (fl_sub hi i)) (zip p inv)" "pos = pos'" "neg = Some negs"
      by (auto simp: lift_def return_res_def)
    with 1 3 x y l k1 k2 Some show ?thesis by auto
  qed
qed



lemma check_arguments_use_raw:
  "check_arguments layer aggregation use_raw adata = (l, Inr (a, ur))
     \<Longrightarrow> ur = (use_raw \<and> raw adata \<noteq> None) \<and> CytoTRACEAggregation_of aggregation = Inr a"
  by (auto simp: check_arguments_eq split: sum.splits option.splits if_splits)

lemma correlate_gene_corr:
  "correlate lib (use_raw \<and> raw adata \<noteq> None) adata = (l, Inr (n, gc))
     \<Longrightarrow> gc = run_gene_corr lib use_raw adata"
  by (auto simp: correlate_eq run_gene_corr_eq adata_mraw_effective split: if_splits)

lemma combined_score_Inr:
  assumes h: "combined_score lib layer aggregation use_raw n_pos_genes n_neg_genes adata = (m, Inr r)"
  shows "\<exists>a l1 l2 l3. check_arguments layer aggregation use_raw adata
            = (l1, Inr (a, use_raw \<and> raw adata \<noteq> None))
      \<and> CytoTRACEAggregation_of aggregation = Inr a
      \<and> correlate lib (use_raw \<and> raw adata \<noteq> None) adata
            = (l2, Inr (s_num_exp_genes r, run_gene_corr lib use_raw adata))
      \<and> combine lib adata (run_gene_corr lib use_raw adata) layer a n_pos_genes n_neg_genes
            = (l3, Inr (s_score r, s_pos_top_genes r, s_neg_top_genes r))
      \<and> s_gene_corr r = run_gene_corr lib use_raw adata
      \<and> s_aggregation r = a \<and> s_use_raw r = (use_raw \<and> raw adata \<noteq> None)
      \<and> m = l1 @ l2 @ l3"
proof -
  from h[unfolded combined_score_def] obtain l1 x k1
    where 1: "check_arguments layer aggregation use_raw adata = (l1, Inr x)"
      and 2: "(case x of (a, ur) \<Rightarrow>
                bind_res (correlate lib ur adata) (\<lambda>(num_exp_genes, gene_corr).
                bind_res (combine lib adata gene_corr layer a n_pos_genes n_neg_genes)
                  (\<lambda>(cytotrace_score, pos_top_genes, neg_top_genes).
                return_res \<lparr>s_score = cytotrace_score, s_num_exp_genes = num_exp_genes,
                   s_gene_corr = gene_corr, s_pos_top_genes = pos_top_genes,
                   s_neg_top_genes = neg_top_genes, s_aggregation = a,
                   s_use_raw = ur\<rparr>))) = (k1, Inr r)"
      and m1: "m = l1 @ k1"
    by (rule bind_res_InrE)
  obtain a ur where x: "x = (a, ur)" by (cases x)
  have ur: "ur = (use_raw \<and> raw adata \<noteq> None)" and ag: "CytoTRACEAggregation_of aggregation = Inr a"
    using check_arguments_use_raw[OF 1[unfolded x]] by simp_all
  from 2[unfolded x prod.case] obtain l2 y k2
    where 3: "correlate lib ur adata = (l2, Inr y)"
      and 4: "(case y of (num_exp_genes, gene_corr) \<Rightarrow>
                bind_res (combine lib adata gene_corr layer a n_pos_genes n_neg_genes)
                  (\<lambda>(cytotrace_score, pos_top_genes, neg_top_genes).
                return_res \<lparr>s_score = cytotrace_score, s_num_exp_genes = num_exp_genes,
                   s_gene_corr = gene_corr, s_pos_top_genes = pos_top_genes,
                   s_neg_top_genes = neg_top_genes, s_aggregation = a,
                   s_use_raw = ur\<rparr>)) = (k2, Inr r)"
      and m2: "k1 = l2 @ k2"
    by (rule bind_res_InrE)
  obtain n gc where y: "y = (n, gc)" by (cases y)
  have gc: "gc = run_gene_corr lib use_raw adata"
    using correlate_gene_corr[OF 3[unfolded y ur]] .
  from 4[unfolded y prod.case] obtain l3 z k3
    where 5: "combine lib adata gc layer a n_pos_genes n_neg_genes = (l3, Inr z)"
      and 6: "(case z of (cytotrace_score, pos_top_genes, neg_top_genes) \<Rightarrow>
                return_res \<lparr>s_score = cytotrace_score, s_num_exp_genes = n,
                   s_gene_corr = gc, s_pos_top_genes = pos_top_genes,
                   s_neg_top_genes = neg_top_genes, s_aggregation = a,
                   s_use_raw = ur\<rparr>) = (k3, Inr r)"
      and m3: "k2 = l3 @ k3"
    by (rule bind_res_InrE)
  obtain sc pos neg where z: "z = (sc, pos, neg)" by (cases z)
  from 6 z have r: "r = \<lparr>s_score = sc, s_num_exp_genes = n, s_gene_corr = gc,
      s_pos_top_genes = pos, s_neg_top_genes = neg, s_aggregation = a, s_use_raw = ur\<rparr>"
    and k3: "k3 = []"
    by (simp_all add: return_res_def)
  have "check_arguments layer aggregation use_raw adata = (l1, Inr (a, use_raw \<and> raw adata \<noteq> None))"
    using 1 x ur by simp
  moreover have "correlate lib (use_raw \<and> raw adata \<noteq> None) adata
            = (l2, Inr (s_num_exp_genes r, run_gene_corr lib use_raw adata))"
    using 3 y ur gc r by simp
  moreover have "combine lib adata (run_gene_corr lib use_raw adata) layer a n_pos_genes n_neg_genes
            = (l3, Inr (s_score r, s_pos_top_genes r, s_neg_top_genes r))"
    using 5 z gc r by simp
  moreover have "s_gene_corr r = run_gene_corr lib use_raw adata" "s_aggregation r = a"
    "s_use_raw r = (use_raw \<and> raw adata \<noteq> None)" "m = l1 @ l2 @ l3"
    using r gc ur m1 m2 m3 k3 by simp_all
  ultimately show ?thesis using ag by blast
qed

lemma compute_score_Inr:
  assumes "compute_score lib adata gc layer a ascending n = (w, Inr (sc, genes))"
  shows "select_top_genes lib adata gc ascending n = (w, Inr genes)
       \<and> (\<exists>M. imputed_expression adata layer genes = Inr M \<and> sc = aggregate lib a M)"
proof -
  from assms[unfolded compute_score_def] obtain w1 t k1
    where 1: "select_top_genes lib adata gc ascending n = (w1, Inr t)"
      and 2: "bind_res (lift (imputed_expression adata layer t))
                (\<lambda>imputed_exp. return_res (aggregate lib a imputed_exp, t)) = (k1, Inr (sc, genes))"
      and w: "w = w1 @ k1"
    by (rule bind_res_InrE)
  from 2 obtain w2 M k2
    where 3: "lift (imputed_expression adata layer t) = (w2, Inr M)"
      and 4: "return_res (aggregate lib a M, t) = (k2, Inr (sc, genes))"
      and k1: "k1 = w2 @ k2"
    by (rule bind_res_InrE)
  from 3 4 have "imputed_expression adata layer t = Inr M" "w2 = []" "k2 = []"
    "sc = aggregate lib a M" "genes = t"
    by (auto simp: lift_def return_res_def)
  with 1 w k1 show ?thesis by auto
qed

subsection \<open>The writes to the store\<close>

lemma obs_set_obs [simp]: "obs (set_obs k c a) = (obs a)(k \<mapsto> c)"
  and var_set_obs [simp]: "var (set_obs k c a) = var a"
  and var_names_set_obs [simp]: "var_names (set_obs k c a) = var_names a"
  by (simp_all add: set_obs_def)

lemma obs_set_var [simp]: "obs (set_var k c a) = obs a"
  and var_set_var [simp]: "var (set_var k c a) = (var a)(k \<mapsto> c)"
  and var_names_set_var [simp]: "var_names (set_var k c a) = var_names a"
  by (simp_all add: set_var_def)

lemma obs_set_var_loc_True [simp]: "obs (set_var_loc_True genes k a) = obs a"
  and var_names_set_var_loc_True [simp]: "var_names (set_var_loc_True genes k a) = var_names a"
  by (simp_all add: set_var_loc_True_def split: option.splits column.splits)

lemma var_set_var_loc_True_other:
  "k' \<noteq> k \<Longrightarrow> var (set_var_loc_True genes k a) k' = var a k'"
  by (simp add: set_var_loc_True_def split: option.splits column.splits)

lemma flags_reset:
  "map (\<lambda>(g, b). if g \<in> S then True else b) (zip names (replicate (length names) False))
     = map (\<lambda>g. g \<in> S) names"
  by (induction names) simp_all

lemma var_set_var_loc_True_fresh:
  "var a k = Some (BoolCol (replicate (length (var_names a)) False))
     \<Longrightarrow> var (set_var_loc_True genes k a) k = Some (BoolCol (map (\<lambda>g. g \<in> set genes) (var_names a)))"
  by (simp add: set_var_loc_True_def flags_reset)

lemma Key_cytotrace_inject [simp]: "Key_cytotrace k = Key_cytotrace k' \<longleftrightarrow> k = k'"
  by (simp add: Key_cytotrace_def)

lemma persist_obs:
  "obs (persist layer r adata) (Key_cytotrace ''score'') = Some (FloatCol (s_score r))"
  "obs (persist layer r adata) (Key_cytotrace ''pseudotime'')
     = Some (FloatCol (map (\<lambda>s. fl_sub (Fin 1) s) (s_score r)))"
  by (simp_all add: persist_def Let_def split: option.splits)

lemma persist_var_names: "var_names (persist layer r adata) = var_names adata"
  by (simp add: persist_def Let_def split: option.splits)

lemma persist_pos_correlates:
  "var (persist layer r adata) (Key_cytotrace ''pos_correlates'')
     = Some (BoolCol (map (\<lambda>g. g \<in> set (s_pos_top_genes r)) (var_names adata)))"
  by (simp add: persist_def Let_def var_set_var_loc_True_other var_set_var_loc_True_fresh
      split: option.splits)

lemma persist_neg_correlates:
  "var (persist layer r adata) (Key_cytotrace ''neg_correlates'')
     = Some (BoolCol (case s_neg_top_genes r of
                        None \<Rightarrow> replicate (length (var_names adata)) False
                      | Some genes \<Rightarrow> map (\<lambda>g. g \<in> set genes) (var_names adata)))"
  by (simp add: persist_def Let_def var_set_var_loc_True_other var_set_var_loc_True_fresh
      split: option.splits)

lemma compute_cytotrace_Inr:
  assumes "compute_cytotrace lib layer aggregation use_raw n_pos_genes n_neg_genes adata
             = (msgs, Inr u, adata')"
  shows "\<exists>m r s. combined_score lib layer aggregation use_raw n_pos_genes n_neg_genes adata = (m, Inr r)
           \<and> minmax_normalize (s_score r) = Inr s
           \<and> adata' = persist layer (r\<lparr>s_score := s\<rparr>) adata
           \<and> msgs = m @ [Info_finish]"
proof -
  let ?c = "bind_res (combined_score lib layer aggregation use_raw n_pos_genes n_neg_genes adata)
             (\<lambda>r. bind_res (lift (minmax_normalize (s_score r)))
                    (\<lambda>s. return_res (r\<lparr>s_score := s\<rparr>)))"
  obtain l q where c: "?c = (l, q)" by (cases ?c)
  with assms obtain r' where q: "q = Inr r'" and a: "adata' = persist layer r' adata"
    and ms: "msgs = l @ [Info_finish]"
    by (cases q) (auto simp: compute_cytotrace_def)
  from c[unfolded q] obtain m r k1
    where 1: "combined_score lib layer aggregation use_raw n_pos_genes n_neg_genes adata = (m, Inr r)"
      and 2: "bind_res (lift (minmax_normalize (s_score r))) (\<lambda>s. return_res (r\<lparr>s_score := s\<rparr>))
               = (k1, Inr r')"
      and l: "l = m @ k1"
    by (rule bind_res_InrE)
  from 2 obtain w2 s k2
    where 3: "lift (minmax_normalize (s_score r)) = (w2, Inr s)"
      and 4: "return_res (r\<lparr>s_score := s\<rparr>) = (k2, Inr r')"
      and k1: "k1 = w2 @ k2"
    by (rule bind_res_InrE)
  from 3 4 have "minmax_normalize (s_score r) = Inr s" "w2 = []" "k2 = []" "r' = r\<lparr>s_score := s\<rparr>"
    by (auto simp: lift_def return_res_def)
  with 1 a ms l k1 show ?thesis by auto
qed

subsection \<open>The small store, evaluated\<close>

lemma sqrt_9: "sqrt 9 = 3" and sqrt_16: "sqrt 16 = 4"
  using real_sqrt_abs[of 3] real_sqrt_abs[of 4] by simp_all

lemma exact_lib_sel [simp]:
  "sort_values exact_lib = stable_sort_values"
  "correlation_test exact_lib = pearson_correlation_test"
  "np_mean exact_lib = mean_row"
  "sort_values reversing_lib = reversing_sort_values"
  "correlation_test reversing_lib = pearson_correlation_test"
  "np_mean reversing_lib = mean_row"
  by (simp_all add: exact_lib_def reversing_lib_def)

lemma small_sel [simp]:
  "var_names small_adata = [''g1'', ''g2'', ''g3'', ''g4'']"
  "X small_adata = Ndarray [[Fin 1, Fin 0, Fin 0, Fin 5], [Fin 1, Fin 3, Fin 4, Fin 2]]"
  "raw small_adata = None"
  "layers small_adata = [''Ms'' \<mapsto> Ndarray [[Fin 1, Fin 1, Fin 1, Fin 1], [Fin 1, Fin 1, Fin 1, Fin 1]]]"
  by (simp_all add: small_adata_def)

lemma small_mraw [simp]:
  "adata_mraw u small_adata
     = (Ndarray [[Fin 1, Fin 0, Fin 0, Fin 5], [Fin 1, Fin 3, Fin 4, Fin 2]], [''g1'', ''g2'', ''g3'', ''g4''])"
  by (simp add: adata_mraw_def split: bool.splits)

lemma small_correlation:
  "pearson_correlation_test (Ndarray [[Fin 1, Fin 0, Fin 0, Fin 5], [Fin 1, Fin 3, Fin 4, Fin 2]])
     [2, 4] [''g1'', ''g2'', ''g3'', ''g4''] = small_gene_corr"
  by (simp add: pearson_correlation_test_def small_gene_corr_def pearson_def
      upt_conv_Cons sqrt_9 sqrt_16 del: upt_Suc)

lemma small_correlate:
  "correlate exact_lib u small_adata
     = ([Info_computing 4 True, Debug_correlating], Inr ([2, 4], small_gene_corr))"
  "correlate reversing_lib u small_adata
     = ([Info_computing 4 True, Debug_correlating], Inr ([2, 4], small_gene_corr))"
  by (simp_all add: correlate_eq small_correlation)

lemma small_run_gene_corr:
  "run_gene_corr exact_lib u small_adata = small_gene_corr"
  "run_gene_corr reversing_lib u small_adata = small_gene_corr"
  by (simp_all add: run_gene_corr_eq small_correlation)

lemma small_sorted:
  "stable_sort_values False small_gene_corr
     = [(''g2'', Fin 1), (''g3'', Fin 1), (''g4'', Fin (- 1)), (''g1'', NaN)]"
  "stable_sort_values True small_gene_corr
     = [(''g4'', Fin (- 1)), (''g2'', Fin 1), (''g3'', Fin 1), (''g1'', NaN)]"
  "reversing_sort_values False small_gene_corr
     = [(''g3'', Fin 1), (''g2'', Fin 1), (''g4'', Fin (- 1)), (''g1'', NaN)]"
  by (simp_all add: stable_sort_values_def reversing_sort_values_def small_gene_corr_def argsort_def)

lemma small_top_slice:
  "top_slice exact_lib small_adata small_gene_corr False 2 = [''g2'', ''g3'']"
  "top_slice exact_lib small_adata small_gene_corr True 1 = [''g4'']"
  "top_slice exact_lib small_adata small_gene_corr False 5 = [''g2'', ''g3'', ''g4'', ''g1'']"
  "top_slice reversing_lib small_adata small_gene_corr False 2 = [''g3'', ''g2'']"
  by (simp_all add: top_slice_def small_sorted)

lemma small_loc:
  "loc small_gene_corr [''g2'', ''g3''] = [Fin 1, Fin 1]"
  "loc small_gene_corr [''g3'', ''g2''] = [Fin 1, Fin 1]"
  "loc small_gene_corr [''g4''] = [Fin (- 1)]"
  "loc small_gene_corr [''g2'', ''g3'', ''g4'', ''g1''] = [Fin 1, Fin 1, Fin (- 1), NaN]"
  by (simp_all add: loc_def small_gene_corr_def)

lemma small_select:
  "select_top_genes exact_lib small_adata small_gene_corr False 2 = ([], Inr [''g2'', ''g3''])"
  "select_top_genes exact_lib small_adata small_gene_corr True 1 = ([], Inr [''g4''])"
  "select_top_genes exact_lib small_adata small_gene_corr False 5
     = ([], Inl (TopGenesContainNaN 4 False 1))"
  "select_top_genes exact_lib small_adata small_gene_corr False 0
     = ([], Inl (TopGenesNotPositive False 0))"
  "select_top_genes reversing_lib small_adata small_gene_corr False 2 = ([], Inr [''g3'', ''g2''])"
  by (simp_all add: select_top_genes_def small_top_slice small_loc Let_def bind_res_simps
      return_res_def raise_def logg_def)

lemma small_score:
  "compute_score exact_lib small_adata small_gene_corr (Some ''X'') MEAN False 2
     = ([], Inr ([Fin 0, Fin (7 / 2)], [''g2'', ''g3'']))"
  "compute_score exact_lib small_adata small_gene_corr (Some ''X'') MEAN True 1
     = ([], Inr ([Fin 5, Fin 2], [''g4'']))"
  "compute_score exact_lib small_adata small_gene_corr (Some ''Ms'') MEAN False 2
     = ([], Inr ([Fin 1, Fin 1], [''g2'', ''g3'']))"
  "compute_score exact_lib small_adata small_gene_corr None MEAN False 2
     = ([], Inl (LayersKeyError None))"
  "compute_score exact_lib small_adata small_gene_corr (Some ''X'') MEAN False 0
     = ([], Inl (TopGenesNotPositive False 0))"
  by (simp_all add: compute_score_def small_select bind_res_simps return_res_def lift_def
      imputed_expression_def index_of_def aggregate_def mean_row_def)

lemma small_check:
  "check_arguments (Some ''X'') ''mean'' False small_adata = ([], Inr (MEAN, False))"
  "check_arguments (Some ''Ms'') ''mean'' False small_adata = ([], Inr (MEAN, False))"
  "check_arguments None ''mean'' False small_adata = ([], Inr (MEAN, False))"
  "check_arguments (Some ''Mu'') ''mean'' False small_adata = ([], Inl (LayerNotFound ''Mu''))"
  "check_arguments (Some ''X'') ''max'' False small_adata = ([], Inl (InvalidAggregation ''max''))"
  by (simp_all add: check_arguments_eq CytoTRACEAggregation_of_def)

lemma small_combine:
  "combine exact_lib small_adata small_gene_corr (Some ''X'') MEAN 2 None
     = ([], Inr ([Fin 0, Fin (7 / 2)], [''g2'', ''g3''], None))"
  "combine exact_lib small_adata small_gene_corr (Some ''X'') MEAN 2 (Some 1)
     = ([], Inr ([Fin 0, Fin (13 / 2)], [''g2'', ''g3''], Some [''g4'']))"
  "combine exact_lib small_adata small_gene_corr (Some ''Ms'') MEAN 2 None
     = ([], Inr ([Fin 1, Fin 1], [''g2'', ''g3''], None))"
  "combine exact_lib small_adata small_gene_corr None MEAN 2 None
     = ([], Inl (LayersKeyError None))"
  "combine exact_lib small_adata small_gene_corr (Some ''X'') MEAN 0 None
     = ([], Inl (TopGenesNotPositive False 0))"
  by (simp_all add: combine_def small_score bind_res_simps return_res_def lift_def np_max_def
      fl_max_def fl_sub_def)

lemma small_combined_score:
  "combined_score exact_lib (Some ''X'') ''mean'' False 2 None small_adata
     = ([Info_computing 4 True, Debug_correlating],
        Inr \<lparr>s_score = [Fin 0, Fin (7 / 2)], s_num_exp_genes = [2, 4],
             s_gene_corr = small_gene_corr, s_pos_top_genes = [''g2'', ''g3''],
             s_neg_top_genes = None, s_aggregation = MEAN, s_use_raw = False\<rparr>)"
  "combined_score exact_lib (Some ''X'') ''mean'' False 2 (Some 1) small_adata
     = ([Info_computing 4 True, Debug_correlating],
        Inr \<lparr>s_score = [Fin 0, Fin (13 / 2)], s_num_exp_genes = [2, 4],
             s_gene_corr = small_gene_corr, s_pos_top_genes = [''g2'', ''g3''],
             s_neg_top_genes = Some [''g4''], s_aggregation = MEAN, s_use_raw = False\<rparr>)"
  "combined_score exact_lib (Some ''Ms'') ''mean'' False 2 None small_adata
     = ([Info_computing 4 True, Debug_correlating],
        Inr \<lparr>s_score = [Fin 1, Fin 1], s_num_exp_genes = [2, 4],
             s_gene_corr = small_gene_corr, s_pos_top_genes = [''g2'', ''g3''],
             s_neg_top_genes = None, s_aggregation = MEAN, s_use_raw = False\<rparr>)"
  "combined_score exact_lib None ''mean'' False 2 None small_adata
     = ([Info_computing 4 True, Debug_correlating], Inl (LayersKeyError None))"
  "combined_score exact_lib (Some ''X'') ''mean'' False 0 None small_adata
     = ([Info_computing 4 True, Debug_correlating], Inl (TopGenesNotPositive False 0))"
  by (simp_all add: combined_score_def small_check small_correlate small_combine bind_res_simps
      return_res_def)

lemma small_minmax:
  "minmax_normalize [Fin 0, Fin (7 / 2)] = Inr [Fin 0, Fin 1]"
  "minmax_normalize [Fin 0, Fin (13 / 2)] = Inr [Fin 0, Fin 1]"
  "minmax_normalize [Fin 1, Fin 1] = Inr [NaN, NaN]"
  by (simp_all add: minmax_normalize_def np_min_def np_max_def fl_min_def fl_max_def fl_sub_def)

lemma small_compute_cytotrace:
  "compute_cytotrace exact_lib (Some ''X'') ''mean'' False 2 None small_adata
     = ([Info_computing 4 True, Debug_correlating, Info_finish], Inr (),
        persist (Some ''X'')
          \<lparr>s_score = [Fin 0, Fin 1], s_num_exp_genes = [2, 4],
           s_gene_corr = small_gene_corr, s_pos_top_genes = [''g2'', ''g3''],
           s_neg_top_genes = None, s_aggregation = MEAN, s_use_raw = False\<rparr> small_adata)"
  "compute_cytotrace exact_lib (Some ''X'') ''mean'' False 2 (Some 1) small_adata
     = ([Info_computing 4 True, Debug_correlating, Info_finish], Inr (),
        persist (Some ''X'')
          \<lparr>s_score = [Fin 0, Fin 1], s_num_exp_genes = [2, 4],
           s_gene_corr = small_gene_corr, s_pos_top_genes = [''g2'', ''g3''],
           s_neg_top_genes = Some [''g4''], s_aggregation = MEAN, s_use_raw = False\<rparr> small_adata)"
  "compute_cytotrace exact_lib (Some ''Ms'') ''mean'' False 2 None small_adata
     = ([Info_computing 4 True, Debug_correlating, Info_finish], Inr (),
        persist (Some ''Ms'')
          \<lparr>s_score = [NaN, NaN], s_num_exp_genes = [2, 4],
           s_gene_corr = small_gene_corr, s_pos_top_genes = [''g2'', ''g3''],
           s_neg_top_genes = None, s_aggregation = MEAN, s_use_raw = False\<rparr> small_adata)"
  "compute_cytotrace exact_lib None ''mean'' False 2 None small_adata
     = ([Info_computing 4 True, Debug_correlating], Inl (LayersKeyError None), small_adata)"
  "compute_cytotrace exact_lib (Some ''X'') ''mean'' False 0 None small_adata
     = ([Info_computing 4 True, Debug_correlating], Inl (TopGenesNotPositive False 0), small_adata)"
  by (simp_all add: compute_cytotrace_def small_combined_score small_minmax bind_res_simps
      return_res_def lift_def)

subsection \<open>Errors and the store\<close>

text \<open>
  C6. A run of \<open>compute_cytotrace\<close> that raises, whatever the exception, leaves the
  store as it was: every exception of the function is raised before line 302, where the
  writes begin.
\<close>

theorem compute_cytotrace_error_leaves_store:
  assumes "compute_cytotrace lib layer aggregation use_raw n_pos_genes n_neg_genes adata
             = (msgs, Inl e, adata')"
  shows "adata' = adata"
  using assms unfolding compute_cytotrace_def
  by (auto split: prod.splits sum.splits)

theorem compute_cytotrace_error_leaves_store_witness:
  "compute_cytotrace exact_lib (Some ''X'') ''mean'' False 0 None small_adata
     = ([Info_computing 4 True, Debug_correlating], Inl (TopGenesNotPositive False 0), small_adata)
   \<and> compute_cytotrace exact_lib None ''mean'' False 2 None small_adata
     = ([Info_computing 4 True, Debug_correlating], Inl (LayersKeyError None), small_adata)"
  using compute_cytotrace_error_leaves_store[OF small_compute_cytotrace(5)]
    compute_cytotrace_error_leaves_store[OF small_compute_cytotrace(4)]
  by (simp add: small_compute_cytotrace)

subsection \<open>The pseudotime\<close>

text \<open>
  C8. After a run that succeeds, the column \<^verbatim>\<open>ct_pseudotime\<close> of \<open>obs\<close> holds, for
  every cell, one minus the value of the column \<^verbatim>\<open>ct_score\<close>.
\<close>

theorem pseudotime_is_one_minus_score:
  assumes "compute_cytotrace lib layer aggregation use_raw n_pos_genes n_neg_genes adata
             = (msgs, Inr u, adata')"
  shows "\<exists>score pseudotime.
           obs adata' (Key_cytotrace ''score'') = Some (FloatCol score)
         \<and> obs adata' (Key_cytotrace ''pseudotime'') = Some (FloatCol pseudotime)
         \<and> length pseudotime = length score
         \<and> (\<forall>i<length score. pseudotime ! i = fl_sub (Fin 1) (score ! i)
                \<and> (\<forall>x. score ! i = Fin x \<longrightarrow> pseudotime ! i = Fin (1 - x)))"
proof -
  from compute_cytotrace_Inr[OF assms] obtain r s
    where a: "adata' = persist layer (r\<lparr>s_score := s\<rparr>) adata"
    by blast
  show ?thesis
    unfolding a by (simp add: persist_obs fl_sub_def)
qed

theorem pseudotime_is_one_minus_score_witness:
  "obs (snd (snd (compute_cytotrace exact_lib (Some ''X'') ''mean'' False 2 None small_adata)))
     (Key_cytotrace ''score'') = Some (FloatCol [Fin 0, Fin 1])
   \<and> obs (snd (snd (compute_cytotrace exact_lib (Some ''X'') ''mean'' False 2 None small_adata)))
       (Key_cytotrace ''pseudotime'') = Some (FloatCol [Fin 1, Fin 0])"
  using pseudotime_is_one_minus_score[OF small_compute_cytotrace(1)]
  by (simp add: small_compute_cytotrace persist_obs fl_sub_def)

subsection \<open>The flags of the correlated genes\<close>

text \<open>
  C10. After a run that succeeds, the flag \<^verbatim>\<open>ct_pos_correlates\<close> of a gene of the
  store says whether the gene is among the positively correlated genes that this run
  selected, and the flag \<^verbatim>\<open>ct_neg_correlates\<close> whether it is among the negatively
  correlated ones, when \<^verbatim>\<open>n_neg_genes\<close> is given; it is false for every gene when
  \<^verbatim>\<open>n_neg_genes\<close> is \<^verbatim>\<open>None\<close>. The columns do not depend on what \<open>var\<close> held.
\<close>

theorem correlate_flags_reset:
  assumes "compute_cytotrace lib layer aggregation use_raw n_pos_genes n_neg_genes adata
             = (msgs, Inr u, adata')"
  shows "\<exists>w pos_genes.
           select_top_genes lib adata (run_gene_corr lib use_raw adata) False n_pos_genes
             = (w, Inr pos_genes)
         \<and> var_names adata' = var_names adata
         \<and> var adata' (Key_cytotrace ''pos_correlates'')
             = Some (BoolCol (map (\<lambda>g. g \<in> set pos_genes) (var_names adata)))
         \<and> (case n_neg_genes of
               None \<Rightarrow>
                 var adata' (Key_cytotrace ''neg_correlates'')
                   = Some (BoolCol (replicate (length (var_names adata)) False))
             | Some n \<Rightarrow>
                 (\<exists>w' neg_genes.
                    select_top_genes lib adata (run_gene_corr lib use_raw adata) True n
                      = (w', Inr neg_genes)
                  \<and> var adata' (Key_cytotrace ''neg_correlates'')
                      = Some (BoolCol (map (\<lambda>g. g \<in> set neg_genes) (var_names adata)))))"
proof -
  from compute_cytotrace_Inr[OF assms] obtain m r s
    where c: "combined_score lib layer aggregation use_raw n_pos_genes n_neg_genes adata = (m, Inr r)"
      and a: "adata' = persist layer (r\<lparr>s_score := s\<rparr>) adata"
    by blast
  from combined_score_Inr[OF c] obtain ag l3
    where cb: "combine lib adata (run_gene_corr lib use_raw adata) layer ag n_pos_genes n_neg_genes
                = (l3, Inr (s_score r, s_pos_top_genes r, s_neg_top_genes r))"
    by blast
  from combine_Inr[OF cb] obtain w1 p
    where ps: "compute_score lib adata (run_gene_corr lib use_raw adata) layer ag False n_pos_genes
                = (w1, Inr (p, s_pos_top_genes r))"
      and ng: "case n_neg_genes of
                 None \<Rightarrow> s_score r = p \<and> s_neg_top_genes r = None \<and> l3 = w1
               | Some n \<Rightarrow> (\<exists>w2 inv negs hi.
                   compute_score lib adata (run_gene_corr lib use_raw adata) layer ag True n
                     = (w2, Inr (inv, negs)) \<and>
                   np_max inv = Inr hi \<and>
                   s_score r = map (\<lambda>(s, i). fl_add s (fl_sub hi i)) (zip p inv) \<and>
                   s_neg_top_genes r = Some negs \<and> l3 = w1 @ w2)"
    by blast
  have sel: "select_top_genes lib adata (run_gene_corr lib use_raw adata) False n_pos_genes
               = (w1, Inr (s_pos_top_genes r))"
    using compute_score_Inr[OF ps] by simp
  have neg: "case n_neg_genes of
               None \<Rightarrow>
                 var adata' (Key_cytotrace ''neg_correlates'')
                   = Some (BoolCol (replicate (length (var_names adata)) False))
             | Some n \<Rightarrow>
                 (\<exists>w' neg_genes.
                    select_top_genes lib adata (run_gene_corr lib use_raw adata) True n
                      = (w', Inr neg_genes)
                  \<and> var adata' (Key_cytotrace ''neg_correlates'')
                      = Some (BoolCol (map (\<lambda>g. g \<in> set neg_genes) (var_names adata))))"
  proof (cases n_neg_genes)
    case None
    with ng show ?thesis unfolding a by (simp add: persist_neg_correlates)
  next
    case (Some n)
    with ng obtain w2 inv negs
      where 1: "compute_score lib adata (run_gene_corr lib use_raw adata) layer ag True n
                 = (w2, Inr (inv, negs))"
        and 2: "s_neg_top_genes r = Some negs"
      by auto
    from compute_score_Inr[OF 1] have "select_top_genes lib adata (run_gene_corr lib use_raw adata) True n
        = (w2, Inr negs)" by simp
    with 2 Some show ?thesis unfolding a by (auto simp: persist_neg_correlates)
  qed
  show ?thesis
    using sel neg unfolding a
    by (intro exI[of _ w1] exI[of _ "s_pos_top_genes r"])
       (simp add: persist_pos_correlates persist_var_names)
qed

theorem correlate_flags_reset_witness:
  "var small_adata (Key_cytotrace ''pos_correlates'') = Some (BoolCol [True, True, True, True])
   \<and> var small_adata (Key_cytotrace ''neg_correlates'') = Some (BoolCol [True, True, True, True])
   \<and> var (snd (snd (compute_cytotrace exact_lib (Some ''X'') ''mean'' False 2 (Some 1) small_adata)))
       (Key_cytotrace ''pos_correlates'') = Some (BoolCol [False, True, True, False])
   \<and> var (snd (snd (compute_cytotrace exact_lib (Some ''X'') ''mean'' False 2 (Some 1) small_adata)))
       (Key_cytotrace ''neg_correlates'') = Some (BoolCol [False, False, False, True])"
  using correlate_flags_reset[OF small_compute_cytotrace(2)]
  by (simp add: small_compute_cytotrace persist_pos_correlates persist_neg_correlates)
     (simp add: small_adata_def Key_cytotrace_def)

subsection \<open>The selection of the top genes\<close>


lemma top_slice_var_names: "set (top_slice lib adata gc ascending n) \<subseteq> set (var_names adata)"
  unfolding top_slice_def using set_take_subset by fastforce

lemma select_top_genes_eq:
  "select_top_genes lib adata gc ascending n =
     (if n \<le> 0 then ([], Inl (TopGenesNotPositive ascending n))
      else if list_ex isnan (loc gc (top_slice lib adata gc ascending n))
      then ([], Inl (TopGenesContainNaN (length (top_slice lib adata gc ascending n)) ascending
                       (length (filter isnan (loc gc (top_slice lib adata gc ascending n))))))
      else if top_slice lib adata gc ascending n = [] then ([], Inl NoGenesSelected)
      else (if int (length (top_slice lib adata gc ascending n)) \<noteq> n
            then [Warning_top_genes ascending n (length (top_slice lib adata gc ascending n))]
            else [],
            Inr (top_slice lib adata gc ascending n)))"
  by (simp add: select_top_genes_def Let_def raise_def logg_def return_res_def bind_res_simps
      list_ex_iff filter_empty_conv)



subsection \<open>The validation of the layer\<close>

lemma select_top_genes_Inl:
  "select_top_genes lib adata gc ascending n = (msgs, Inl e) \<Longrightarrow> exc_class e = ValueError"
  by (auto simp: select_top_genes_eq split: if_splits)

lemma select_top_genes_Inr:
  "select_top_genes lib adata gc ascending n = (msgs, Inr genes)
     \<Longrightarrow> genes = top_slice lib adata gc ascending n \<and> set genes \<subseteq> set (var_names adata)"
  using top_slice_var_names[of lib adata gc ascending n]
  by (auto simp: select_top_genes_eq split: if_splits)

lemma imputed_expression_None:
  "set genes \<subseteq> set (var_names adata) \<Longrightarrow> imputed_expression adata None genes = Inl (LayersKeyError None)"
proof -
  assume "set genes \<subseteq> set (var_names adata)"
  then have "filter (\<lambda>g. g \<notin> set (var_names adata)) genes = []"
    by (auto simp: filter_empty_conv)
  then show ?thesis by (simp add: imputed_expression_def)
qed

lemma imputed_expression_Inl:
  "imputed_expression adata layer genes = Inl e \<Longrightarrow> \<forall>l. e \<noteq> LayerNotFound l"
  by (auto simp: imputed_expression_def Let_def split: list.splits option.splits if_splits)

lemma compute_score_Inl:
  assumes "compute_score lib adata gc layer a ascending n = (msgs, Inl e)"
  shows "\<forall>l. e \<noteq> LayerNotFound l"
  using assms unfolding compute_score_def
  by (auto simp: bind_res_Inl lift_def return_res_def
      dest: select_top_genes_Inl imputed_expression_Inl)

lemma compute_score_None:
  assumes "select_top_genes lib adata gc ascending n = (w, Inr genes)"
  shows "compute_score lib adata gc None a ascending n = (w, Inl (LayersKeyError None))"
  using select_top_genes_Inr[OF assms] assms
  by (simp add: compute_score_def bind_res_simps lift_def
      imputed_expression_None[OF top_slice_var_names])

lemma compute_score_None_Inl:
  "\<exists>e. snd (compute_score lib adata gc None a ascending n) = Inl e"
proof (cases "select_top_genes lib adata gc ascending n")
  case (Pair w q)
  show ?thesis
  proof (cases q)
    case (Inl e)
    with Pair show ?thesis by (simp add: compute_score_def bind_res_simps)
  next
    case (Inr genes)
    with Pair compute_score_None[of lib adata gc ascending n w genes a] show ?thesis by simp
  qed
qed

lemma np_max_Inl: "np_max xs = Inl e \<Longrightarrow> e = ZeroSizeReduction"
  and np_min_Inl: "np_min xs = Inl e \<Longrightarrow> e = ZeroSizeReduction"
  by (auto simp: np_max_def np_min_def split: list.splits)

lemma minmax_normalize_Inl: "minmax_normalize xs = Inl e \<Longrightarrow> e = ZeroSizeReduction"
  by (auto simp: minmax_normalize_def Let_def split: sum.splits dest: np_max_Inl np_min_Inl)

lemma combine_Inl:
  assumes "combine lib adata gc layer a n_pos n_neg = (msgs, Inl e)"
  shows "\<forall>l. e \<noteq> LayerNotFound l"
  using assms unfolding combine_def
  by (cases n_neg)
     (auto simp: bind_res_Inl lift_def return_res_def split_def
      dest: compute_score_Inl np_max_Inl)

lemma compute_cytotrace_Inl:
  assumes "compute_cytotrace lib layer aggregation use_raw n_pos_genes n_neg_genes adata
             = (msgs, Inl e, adata')"
  shows "adata' = adata \<and>
         (combined_score lib layer aggregation use_raw n_pos_genes n_neg_genes adata = (msgs, Inl e)
          \<or> e = ZeroSizeReduction)"
proof -
  let ?c = "bind_res (combined_score lib layer aggregation use_raw n_pos_genes n_neg_genes adata)
             (\<lambda>r. bind_res (lift (minmax_normalize (s_score r)))
                    (\<lambda>s. return_res (r\<lparr>s_score := s\<rparr>)))"
  obtain l q where c: "?c = (l, q)" by (cases ?c)
  with assms have q: "q = Inl e" and a: "adata' = adata" and ms: "msgs = l"
    by (cases q; auto simp: compute_cytotrace_def)+
  from c[unfolded q bind_res_Inl] ms
  have "combined_score lib layer aggregation use_raw n_pos_genes n_neg_genes adata = (msgs, Inl e)
        \<or> e = ZeroSizeReduction"
    by (auto simp: lift_def return_res_def dest: minmax_normalize_Inl)
  with a show ?thesis by simp
qed

lemma check_arguments_LayerNotFound:
  "check_arguments layer aggregation use_raw adata = (msgs, Inl (LayerNotFound l))
     \<longleftrightarrow> (\<exists>a. CytoTRACEAggregation_of aggregation = Inr a) \<and> layer = Some l \<and> l \<noteq> ''X''
          \<and> layers adata l = None
          \<and> msgs = (if use_raw \<and> raw adata = None then [Warning_raw_is_None] else [])"
  by (cases "CytoTRACEAggregation_of aggregation"; cases layer)
     (auto simp: check_arguments_eq CytoTRACEAggregation_of_def split: if_splits)

lemma combined_score_Inl:
  assumes "combined_score lib layer aggregation use_raw n_pos_genes n_neg_genes adata = (msgs, Inl e)"
  shows "check_arguments layer aggregation use_raw adata = (msgs, Inl e) \<or> (\<forall>l. e \<noteq> LayerNotFound l)"
proof -
  from assms[unfolded combined_score_def bind_res_Inl]
  consider "check_arguments layer aggregation use_raw adata = (msgs, Inl e)"
    | x l2 where "(case x of (a, ur) \<Rightarrow>
                bind_res (correlate lib ur adata) (\<lambda>(num_exp_genes, gene_corr).
                bind_res (combine lib adata gene_corr layer a n_pos_genes n_neg_genes)
                  (\<lambda>(cytotrace_score, pos_top_genes, neg_top_genes).
                return_res \<lparr>s_score = cytotrace_score, s_num_exp_genes = num_exp_genes,
                   s_gene_corr = gene_corr, s_pos_top_genes = pos_top_genes,
                   s_neg_top_genes = neg_top_genes, s_aggregation = a,
                   s_use_raw = ur\<rparr>))) = (l2, Inl e)"
    by blast
  then show ?thesis
  proof cases
    case 1
    then show ?thesis by simp
  next
    case 2
    obtain a ur where x: "x = (a, ur)" by (cases x)
    from 2[unfolded x prod.case bind_res_Inl]
    consider "correlate lib ur adata = (l2, Inl e)"
      | y k2 where "(case y of (num_exp_genes, gene_corr) \<Rightarrow>
                bind_res (combine lib adata gene_corr layer a n_pos_genes n_neg_genes)
                  (\<lambda>(cytotrace_score, pos_top_genes, neg_top_genes).
                return_res \<lparr>s_score = cytotrace_score, s_num_exp_genes = num_exp_genes,
                   s_gene_corr = gene_corr, s_pos_top_genes = pos_top_genes,
                   s_neg_top_genes = neg_top_genes, s_aggregation = a,
                   s_use_raw = ur\<rparr>)) = (k2, Inl e)"
      by blast
    then show ?thesis
    proof cases
      case 1
      then have "e = TooManyIndices" by (auto simp: correlate_eq split: if_splits)
      then show ?thesis by simp
    next
      case 2
      obtain n gc where "y = (n, gc)" by (cases y)
      with 2 obtain k where "combine lib adata gc layer a n_pos_genes n_neg_genes = (k, Inl e)"
        by (auto simp: bind_res_Inl return_res_def split_def)
      from combine_Inl[OF this] show ?thesis by simp
    qed
  qed
qed

lemma compute_cytotrace_check_fails:
  "check_arguments layer aggregation use_raw adata = (l, Inl e)
     \<Longrightarrow> compute_cytotrace lib layer aggregation use_raw n_pos_genes n_neg_genes adata
           = (l, Inl e, adata)"
  by (simp add: compute_cytotrace_def combined_score_def bind_res_simps)

lemma compute_cytotrace_None_selected:
  assumes ag: "CytoTRACEAggregation_of aggregation = Inr a"
    and cells: "length (count_expressed (fst (adata_mraw use_raw adata))) \<noteq> 1"
    and sel: "select_top_genes lib adata (run_gene_corr lib use_raw adata) False n_pos_genes
                = (w, Inr genes)"
  shows "compute_cytotrace lib None aggregation use_raw n_pos_genes n_neg_genes adata
           = ((if use_raw \<and> raw adata = None then [Warning_raw_is_None] else [])
                @ [Info_computing (length (snd (adata_mraw use_raw adata)))
                     (length (snd (adata_mraw use_raw adata)) < 10000),
                   Debug_correlating] @ w,
              Inl (LayersKeyError None), adata)"
proof -
  have ck: "check_arguments None aggregation use_raw adata
              = (if use_raw \<and> raw adata = None then [Warning_raw_is_None] else [],
                 Inr (a, use_raw \<and> raw adata \<noteq> None))"
    using ag by (simp add: check_arguments_eq)
  have co: "correlate lib (use_raw \<and> raw adata \<noteq> None) adata
              = ([Info_computing (length (snd (adata_mraw use_raw adata)))
                    (length (snd (adata_mraw use_raw adata)) < 10000), Debug_correlating],
                 Inr (count_expressed (fst (adata_mraw use_raw adata)),
                      run_gene_corr lib use_raw adata))"
    using cells unfolding correlate_eq adata_mraw_effective(1) run_gene_corr_eq by simp
  have cb: "combine lib adata (run_gene_corr lib use_raw adata) None a n_pos_genes n_neg_genes
              = (w, Inl (LayersKeyError None))"
    unfolding combine_def compute_score_None[OF sel] by (simp add: bind_res_simps)
  have "combined_score lib None aggregation use_raw n_pos_genes n_neg_genes adata
          = ((if use_raw \<and> raw adata = None then [Warning_raw_is_None] else [])
                @ [Info_computing (length (snd (adata_mraw use_raw adata)))
                     (length (snd (adata_mraw use_raw adata)) < 10000),
                   Debug_correlating] @ w,
             Inl (LayersKeyError None))"
    unfolding combined_score_def ck bind_res_simps prod.case co cb fst_conv snd_conv
    by simp
  then show ?thesis
    by (simp add: compute_cytotrace_def bind_res_simps)
qed

lemma compute_cytotrace_None_fails:
  "compute_cytotrace lib None aggregation use_raw n_pos_genes n_neg_genes adata
     \<noteq> (msgs, Inr u, adata')"
proof
  assume h: "compute_cytotrace lib None aggregation use_raw n_pos_genes n_neg_genes adata
               = (msgs, Inr u, adata')"
  from compute_cytotrace_Inr[OF h] obtain m r
    where c: "combined_score lib None aggregation use_raw n_pos_genes n_neg_genes adata = (m, Inr r)"
    by blast
  from combined_score_Inr[OF c] obtain ag l3
    where cb: "combine lib adata (run_gene_corr lib use_raw adata) None ag n_pos_genes n_neg_genes
                = (l3, Inr (s_score r, s_pos_top_genes r, s_neg_top_genes r))"
    by blast
  from combine_Inr[OF cb] obtain w1 p
    where "compute_score lib adata (run_gene_corr lib use_raw adata) None ag False n_pos_genes
             = (w1, Inr (p, s_pos_top_genes r))"
    by blast
  with compute_score_None_Inl[of lib adata "run_gene_corr lib use_raw adata" ag False n_pos_genes]
  show False by simp
qed

text \<open>
  C9. The check of line 261 raises its \<^verbatim>\<open>KeyError\<close> exactly for a layer name that is
  given, is not \<^verbatim>\<open>"X"\<close> and is no key of the layers (when the aggregation mode is
  valid, which is checked before). With \<^verbatim>\<open>layer=None\<close> no run succeeds and none
  fails in that check: when the cells are counted and correlated and the top genes are
  selected, the run ends in the \<^verbatim>\<open>KeyError\<close> of \<^verbatim>\<open>layers[None]\<close>, after the
  messages of these steps, and the store is as it was.
\<close>

theorem layer_None_passes_validation:
  "((\<exists>msgs adata'. compute_cytotrace lib layer aggregation use_raw n_pos_genes n_neg_genes adata
                      = (msgs, Inl (LayerNotFound l), adata'))
      \<longleftrightarrow> (\<exists>a. CytoTRACEAggregation_of aggregation = Inr a) \<and> layer = Some l \<and> l \<noteq> ''X''
          \<and> layers adata l = None)
   \<and> (\<forall>msgs out adata'.
         compute_cytotrace lib None aggregation use_raw n_pos_genes n_neg_genes adata
           = (msgs, out, adata')
         \<longrightarrow> (\<exists>e. out = Inl e \<and> (\<forall>k. e \<noteq> LayerNotFound k)) \<and> adata' = adata)
   \<and> (\<forall>a w genes.
         CytoTRACEAggregation_of aggregation = Inr a
         \<and> length (count_expressed (fst (adata_mraw use_raw adata))) \<noteq> 1
         \<and> select_top_genes lib adata (run_gene_corr lib use_raw adata) False n_pos_genes
             = (w, Inr genes)
         \<longrightarrow> compute_cytotrace lib None aggregation use_raw n_pos_genes n_neg_genes adata
             = ((if use_raw \<and> raw adata = None then [Warning_raw_is_None] else [])
                  @ [Info_computing (length (snd (adata_mraw use_raw adata)))
                       (length (snd (adata_mraw use_raw adata)) < 10000),
                     Debug_correlating] @ w,
                Inl (LayersKeyError None), adata)
           \<and> exc_class (LayersKeyError None) = KeyError)"
proof (intro conjI allI impI)
  show "(\<exists>msgs adata'. compute_cytotrace lib layer aggregation use_raw n_pos_genes n_neg_genes adata
                      = (msgs, Inl (LayerNotFound l), adata'))
      \<longleftrightarrow> (\<exists>a. CytoTRACEAggregation_of aggregation = Inr a) \<and> layer = Some l \<and> l \<noteq> ''X''
          \<and> layers adata l = None"
  proof
    assume "\<exists>msgs adata'. compute_cytotrace lib layer aggregation use_raw n_pos_genes n_neg_genes adata
                      = (msgs, Inl (LayerNotFound l), adata')"
    then obtain msgs adata' where h: "compute_cytotrace lib layer aggregation use_raw n_pos_genes
        n_neg_genes adata = (msgs, Inl (LayerNotFound l), adata')" by blast
    from compute_cytotrace_Inl[OF h]
    have "combined_score lib layer aggregation use_raw n_pos_genes n_neg_genes adata
            = (msgs, Inl (LayerNotFound l))" by simp
    from combined_score_Inl[OF this]
    have "check_arguments layer aggregation use_raw adata = (msgs, Inl (LayerNotFound l))" by simp
    then show "(\<exists>a. CytoTRACEAggregation_of aggregation = Inr a) \<and> layer = Some l \<and> l \<noteq> ''X''
          \<and> layers adata l = None"
      unfolding check_arguments_LayerNotFound by simp
  next
    assume "(\<exists>a. CytoTRACEAggregation_of aggregation = Inr a) \<and> layer = Some l \<and> l \<noteq> ''X''
          \<and> layers adata l = None"
    then have "check_arguments layer aggregation use_raw adata
                 = (if use_raw \<and> raw adata = None then [Warning_raw_is_None] else [],
                    Inl (LayerNotFound l))"
      unfolding check_arguments_LayerNotFound by simp
    from compute_cytotrace_check_fails[OF this]
    show "\<exists>msgs adata'. compute_cytotrace lib layer aggregation use_raw n_pos_genes n_neg_genes adata
                      = (msgs, Inl (LayerNotFound l), adata')" by blast
  qed
next
  fix msgs out adata'
  assume h: "compute_cytotrace lib None aggregation use_raw n_pos_genes n_neg_genes adata
               = (msgs, out, adata')"
  show "\<exists>e. out = Inl e \<and> (\<forall>k. e \<noteq> LayerNotFound k)"
  proof (cases out)
    case (Inr u)
    with h compute_cytotrace_None_fails show ?thesis by blast
  next
    case (Inl e)
    from compute_cytotrace_Inl[OF h[unfolded Inl]] combined_score_Inl
    have "check_arguments None aggregation use_raw adata = (msgs, Inl e) \<or> (\<forall>k. e \<noteq> LayerNotFound k)"
      by blast
    then have "\<forall>k. e \<noteq> LayerNotFound k"
      by (auto simp: check_arguments_LayerNotFound)
    with Inl show ?thesis by simp
  qed
  show "adata' = adata"
  proof (cases out)
    case (Inr u)
    with h compute_cytotrace_None_fails show ?thesis by blast
  next
    case (Inl e)
    from compute_cytotrace_Inl[OF h[unfolded Inl]] show ?thesis by simp
  qed
next
  fix a w genes
  assume "CytoTRACEAggregation_of aggregation = Inr a
         \<and> length (count_expressed (fst (adata_mraw use_raw adata))) \<noteq> 1
         \<and> select_top_genes lib adata (run_gene_corr lib use_raw adata) False n_pos_genes
             = (w, Inr genes)"
  then show "compute_cytotrace lib None aggregation use_raw n_pos_genes n_neg_genes adata
             = ((if use_raw \<and> raw adata = None then [Warning_raw_is_None] else [])
                  @ [Info_computing (length (snd (adata_mraw use_raw adata)))
                       (length (snd (adata_mraw use_raw adata)) < 10000),
                     Debug_correlating] @ w,
                Inl (LayersKeyError None), adata)"
    using compute_cytotrace_None_selected by blast
next
  show "exc_class (LayersKeyError None) = KeyError" by simp
qed

theorem layer_None_passes_validation_witness:
  "compute_cytotrace exact_lib None ''mean'' False 2 None small_adata
     = ([Info_computing 4 True, Debug_correlating], Inl (LayersKeyError None), small_adata)
   \<and> compute_cytotrace exact_lib (Some ''Mu'') ''mean'' False 2 None small_adata
     = ([], Inl (LayerNotFound ''Mu''), small_adata)"
  using layer_None_passes_validation[of exact_lib "Some ''Mu''" "''mean''" False 2 None small_adata "''Mu''"]
    compute_cytotrace_check_fails[OF small_check(4), of exact_lib 2 None]
  by (simp add: small_compute_cytotrace)

subsection \<open>Minimum and maximum of finite values\<close>

lemma foldl_fl_max_Fin: "foldl fl_max (Fin x) (map Fin xs) = Fin (foldl max x xs)"
  by (induction xs arbitrary: x) (auto simp: fl_max_def max_def)


lemma foldl_max_Max: "foldl max (x::real) xs = Max (set (x # xs))"
proof -
  have "(\<lambda>a s. max s a) = (max :: real \<Rightarrow> real \<Rightarrow> real)"
    by (intro ext) (simp add: max.commute)
  then show ?thesis unfolding Max.set_eq_fold foldl_conv_fold by simp
qed


lemma np_max_Fin: "xs \<noteq> [] \<Longrightarrow> np_max (map Fin xs) = Inr (Fin (Max (set xs)))"
  by (cases xs) (simp_all add: np_max_def foldl_fl_max_Fin foldl_max_Max del: foldl_conv_fold)





subsection \<open>The normalized score\<close>


text \<open>
  A score that is finite and the same for all cells: the difference to the minimum is
  zero for every cell, the maximum of the differences is zero, and the quotient is
  undefined.
\<close>

lemma minmax_normalize_constant:
  "minmax_normalize (replicate (Suc n) (Fin c)) = Inr (replicate (Suc n) NaN)"
proof -
  have lo: "foldl fl_min (Fin c) (replicate k (Fin c)) = Fin c" for k
    by (induction k) (simp_all add: fl_min_def)
  have hi: "foldl fl_max (Fin 0) (replicate k (Fin 0)) = Fin 0" for k
    by (induction k) (simp_all add: fl_max_def)
  show ?thesis
    by (simp add: minmax_normalize_def np_min_def np_max_def lo hi fl_sub_def)
qed




subsection \<open>The combined score\<close>

lemma aggregate_length: "length (aggregate lib a M) = shape0 M"
  by (cases M; cases a) (simp_all add: aggregate_def)

lemma shape0_take_columns: "shape0 (take_columns js M) = shape0 M"
  by (cases M) simp_all

lemma imputed_expression_shape:
  "imputed_expression adata layer g1 = Inr M1 \<Longrightarrow> imputed_expression adata layer g2 = Inr M2
     \<Longrightarrow> shape0 M1 = shape0 M2"
  by (auto simp: imputed_expression_def Let_def shape0_take_columns
      split: list.splits if_splits option.splits)

lemma np_max_Inr_nonempty: "np_max xs = Inr hi \<Longrightarrow> xs \<noteq> []"
  by (auto simp: np_max_def)

text \<open>
  C7. Before the normalization, the score of a run without \<^verbatim>\<open>n_neg_genes\<close> is the
  aggregate of the positively correlated genes. With \<^verbatim>\<open>n_neg_genes\<close> it is, for every
  cell, that aggregate plus the maximum over the cells of the aggregate of the
  negatively correlated genes minus that aggregate for the cell.
\<close>

theorem combined_score_formula:
  assumes "combined_score lib layer aggregation use_raw n_pos_genes n_neg_genes adata = (m, Inr r)"
  shows "\<exists>a w pos.
           CytoTRACEAggregation_of aggregation = Inr a
         \<and> compute_score lib adata (run_gene_corr lib use_raw adata) layer a False n_pos_genes
             = (w, Inr (pos, s_pos_top_genes r))
         \<and> (case n_neg_genes of
               None \<Rightarrow> s_score r = pos
             | Some n \<Rightarrow>
                 (\<exists>w' neg negs hi.
                    compute_score lib adata (run_gene_corr lib use_raw adata) layer a True n
                      = (w', Inr (neg, negs))
                  \<and> np_max neg = Inr hi
                  \<and> length neg = length pos \<and> length (s_score r) = length pos
                  \<and> (\<forall>i<length pos. s_score r ! i = fl_add (pos ! i) (fl_sub hi (neg ! i)))
                  \<and> (\<forall>ps ns. pos = map Fin ps \<and> neg = map Fin ns
                        \<longrightarrow> (\<forall>i<length ps. s_score r ! i
                                               = Fin (ps ! i + (Max (set ns) - ns ! i))))))"
proof -
  from combined_score_Inr[OF assms] obtain a l3
    where ag: "CytoTRACEAggregation_of aggregation = Inr a"
      and cb: "combine lib adata (run_gene_corr lib use_raw adata) layer a n_pos_genes n_neg_genes
                = (l3, Inr (s_score r, s_pos_top_genes r, s_neg_top_genes r))"
    by blast
  from combine_Inr[OF cb] obtain w1 p
    where ps: "compute_score lib adata (run_gene_corr lib use_raw adata) layer a False n_pos_genes
                = (w1, Inr (p, s_pos_top_genes r))"
      and ng: "case n_neg_genes of
                 None \<Rightarrow> s_score r = p \<and> s_neg_top_genes r = None \<and> l3 = w1
               | Some n \<Rightarrow> (\<exists>w2 inv negs hi.
                   compute_score lib adata (run_gene_corr lib use_raw adata) layer a True n
                     = (w2, Inr (inv, negs)) \<and>
                   np_max inv = Inr hi \<and>
                   s_score r = map (\<lambda>(s, i). fl_add s (fl_sub hi i)) (zip p inv) \<and>
                   s_neg_top_genes r = Some negs \<and> l3 = w1 @ w2)"
    by blast
  have "case n_neg_genes of
               None \<Rightarrow> s_score r = p
             | Some n \<Rightarrow>
                 (\<exists>w' neg negs hi.
                    compute_score lib adata (run_gene_corr lib use_raw adata) layer a True n
                      = (w', Inr (neg, negs))
                  \<and> np_max neg = Inr hi
                  \<and> length neg = length p \<and> length (s_score r) = length p
                  \<and> (\<forall>i<length p. s_score r ! i = fl_add (p ! i) (fl_sub hi (neg ! i)))
                  \<and> (\<forall>ps ns. p = map Fin ps \<and> neg = map Fin ns
                        \<longrightarrow> (\<forall>i<length ps. s_score r ! i
                                               = Fin (ps ! i + (Max (set ns) - ns ! i)))))"
  proof (cases n_neg_genes)
    case None
    with ng show ?thesis by simp
  next
    case (Some n)
    with ng obtain w2 inv negs hi
      where 1: "compute_score lib adata (run_gene_corr lib use_raw adata) layer a True n
                 = (w2, Inr (inv, negs))"
        and 2: "np_max inv = Inr hi"
        and 3: "s_score r = map (\<lambda>(s, i). fl_add s (fl_sub hi i)) (zip p inv)"
      by auto
    from compute_score_Inr[OF ps] compute_score_Inr[OF 1]
    obtain M1 M2 where "imputed_expression adata layer (s_pos_top_genes r) = Inr M1"
      "p = aggregate lib a M1" "imputed_expression adata layer negs = Inr M2"
      "inv = aggregate lib a M2"
      by blast
    then have len: "length inv = length p"
      using imputed_expression_shape[of adata layer "s_pos_top_genes r" M1 negs M2]
      by (simp add: aggregate_length)
    have cell: "\<forall>i<length p. s_score r ! i = fl_add (p ! i) (fl_sub hi (inv ! i))"
      unfolding 3 using len by simp
    have real: "\<forall>i<length xs. s_score r ! i = Fin (xs ! i + (Max (set ns) - ns ! i))"
      if "p = map Fin xs" "inv = map Fin ns" for xs ns
    proof -
      from 2 that np_max_Inr_nonempty[OF 2] have "hi = Fin (Max (set ns))"
        using np_max_Fin[of ns] by auto
      with cell that len show ?thesis by (auto simp: fl_sub_def)
    qed
    have l2: "length (s_score r) = length p" unfolding 3 using len by simp
    show ?thesis unfolding Some option.case using 1 2 len l2 cell real by blast
  qed
  with ag ps show ?thesis by blast
qed

theorem combined_score_formula_witness:
  "compute_score exact_lib small_adata small_gene_corr (Some ''X'') MEAN False 2
     = ([], Inr ([Fin 0, Fin (7 / 2)], [''g2'', ''g3'']))
   \<and> compute_score exact_lib small_adata small_gene_corr (Some ''X'') MEAN True 1
     = ([], Inr ([Fin 5, Fin 2], [''g4'']))
   \<and> map_sum id s_score (snd (combined_score exact_lib (Some ''X'') ''mean'' False 2 (Some 1) small_adata))
     = Inr [Fin (0 + (5 - 5)), Fin (7 / 2 + (5 - 2))]"
  using combined_score_formula[OF small_combined_score(2)]
  by (simp add: small_combined_score small_score)

subsection \<open>The order of the top genes\<close>







subsection \<open>The two sorts of the instance\<close>

text \<open>
  Both sorts by insertion return what \<open>sorts\<close> asks for, for every series and in both
  directions.
\<close>

lemma mset_insort_value: "mset (insort_value p qs) = add_mset p (mset qs)"
  by (induction qs) simp_all

lemma mset_argsort: "mset (argsort series) = mset series"
  by (induction series) (simp_all add: argsort_def mset_insort_value)

lemma set_insort_value: "set (insort_value p qs) = insert p (set qs)"
  by (induction qs) auto

lemma set_argsort: "set (argsort series) = set series"
  by (rule mset_eq_setD[OF mset_argsort])

lemma fl_less_asym: "fl_less a b \<Longrightarrow> \<not> fl_less b a"
  by (cases a; cases b) simp_all

lemma not_fl_less_trans:
  "\<not> isnan b \<Longrightarrow> \<not> fl_less b a \<Longrightarrow> \<not> fl_less c b \<Longrightarrow> \<not> fl_less c a"
  by (cases a; cases b; cases c) simp_all

lemma sorted_insort_value:
  assumes "\<forall>q \<in> set qs. \<not> isnan (snd q)"
    and "sorted_wrt (\<lambda>a b. \<not> fl_less (snd b) (snd a)) qs"
  shows "sorted_wrt (\<lambda>a b. \<not> fl_less (snd b) (snd a)) (insort_value p qs)"
  using assms
proof (induction qs)
  case Nil
  then show ?case by simp
next
  case (Cons q qs)
  show ?case
  proof (cases "fl_less (snd q) (snd p)")
    case True
    with Cons show ?thesis
      by (auto simp: set_insort_value dest: fl_less_asym)
  next
    case False
    have "\<not> fl_less (snd x) (snd p)" if "x \<in> set qs" for x
    proof -
      from Cons.prems that have "\<not> isnan (snd q)" "\<not> fl_less (snd x) (snd q)" by auto
      with False show ?thesis using not_fl_less_trans[of "snd q" "snd p" "snd x"] by simp
    qed
    with False Cons.prems show ?thesis by auto
  qed
qed

lemma sorted_argsort:
  "\<forall>q \<in> set series. \<not> isnan (snd q)
     \<Longrightarrow> sorted_wrt (\<lambda>a b. \<not> fl_less (snd b) (snd a)) (argsort series)"
proof (induction series)
  case Nil
  then show ?case by (simp add: argsort_def)
next
  case (Cons p series)
  then have "sorted_wrt (\<lambda>a b. \<not> fl_less (snd b) (snd a)) (argsort series)" by simp
  moreover have "\<forall>q \<in> set (argsort series). \<not> isnan (snd q)"
    using Cons.prems by (simp add: set_argsort)
  ultimately show ?case
    using sorted_insort_value[of "argsort series" p] by (simp add: argsort_def)
qed

lemma values_in_order_append:
  assumes "\<forall>p \<in> set good. \<not> isnan (snd p)" and "\<forall>p \<in> set bad. isnan (snd p)"
    and "sorted_wrt (\<lambda>a b. in_direction ascending (snd a) (snd b)) good"
  shows "values_in_order ascending (map snd (good @ bad))"
proof -
  have "sorted_wrt (\<lambda>a b. (isnan (snd a) \<longrightarrow> isnan (snd b))
                       \<and> (\<not> isnan (snd b) \<longrightarrow> in_direction ascending (snd a) (snd b))) good"
    by (rule sorted_wrt_mono_rel[OF _ assms(3)]) (use assms(1) in auto)
  moreover have "sorted_wrt (\<lambda>a b. (isnan (snd a) \<longrightarrow> isnan (snd b))
                       \<and> (\<not> isnan (snd b) \<longrightarrow> in_direction ascending (snd a) (snd b))) bad"
    using assms(2) by (auto simp: sorted_wrt_iff_nth_less)
  ultimately show ?thesis
    using assms(1,2) by (auto simp: values_in_order_def sorted_wrt_map sorted_wrt_append)
qed

lemma argsort_ascending:
  assumes "\<forall>q \<in> set series. \<not> isnan (snd q)"
  shows "sorted_wrt (\<lambda>a b. in_direction True (snd a) (snd b)) (argsort series)"
proof -
  have "\<forall>q \<in> set (argsort series). \<not> isnan (snd q)"
    using assms by (simp add: set_argsort)
  then show ?thesis
    by (intro sorted_wrt_mono_rel[OF _ sorted_argsort[OF assms]])
       (auto simp: in_direction_def fl_le_def)
qed

lemma argsort_descending:
  assumes "\<forall>q \<in> set series. \<not> isnan (snd q)"
  shows "sorted_wrt (\<lambda>a b. in_direction False (snd a) (snd b)) (rev (argsort series))"
proof -
  have "\<forall>q \<in> set (argsort series). \<not> isnan (snd q)"
    using assms by (simp add: set_argsort)
  then have "sorted_wrt (\<lambda>b a. in_direction False (snd a) (snd b)) (argsort series)"
    by (intro sorted_wrt_mono_rel[OF _ sorted_argsort[OF assms]])
       (auto simp: in_direction_def fl_le_def)
  then show ?thesis by (simp add: sorted_wrt_rev)
qed

lemma mset_defined_undefined:
  "mset (filter (\<lambda>p. \<not> isnan (snd p)) series) + mset (filter (\<lambda>p. isnan (snd p)) series)
     = mset series"
  by (induction series) simp_all

lemma sorts_good_bad:
  assumes "mset good = mset (filter (\<lambda>p. \<not> isnan (snd p)) series)"
    and "sorted_wrt (\<lambda>a b. in_direction ascending (snd a) (snd b)) good"
    and "sort_values lib ascending series = good @ filter (\<lambda>p. isnan (snd p)) series"
  shows "sorts lib ascending series"
proof -
  have "set good = set (filter (\<lambda>p. \<not> isnan (snd p)) series)"
    by (rule mset_eq_setD[OF assms(1)])
  then have "\<forall>p \<in> set good. \<not> isnan (snd p)" by simp
  then have "values_in_order ascending (map snd (good @ filter (\<lambda>p. isnan (snd p)) series))"
    using assms(2) by (intro values_in_order_append) simp_all
  moreover have "mset (good @ filter (\<lambda>p. isnan (snd p)) series) = mset series"
    using mset_defined_undefined[of series] assms(1) by simp
  ultimately show ?thesis
    unfolding sorts_def assms(3) by simp
qed

lemma reversing_sort_values_sorts:
  assumes "sort_values lib = reversing_sort_values"
  shows "sorts lib ascending series"
proof (cases ascending)
  case True
  then have asc: "ascending = True" by simp
  show ?thesis
    unfolding asc
    by (rule sorts_good_bad[where good = "argsort (filter (\<lambda>p. \<not> isnan (snd p)) series)"])
       (simp_all add: mset_argsort argsort_ascending assms reversing_sort_values_def)
next
  case False
  then have asc: "ascending = False" by simp
  show ?thesis
    unfolding asc
    by (rule sorts_good_bad[where good = "rev (argsort (filter (\<lambda>p. \<not> isnan (snd p)) series))"])
       (simp_all add: mset_argsort argsort_descending assms reversing_sort_values_def)
qed

lemma stable_sort_values_sorts:
  assumes "sort_values lib = stable_sort_values"
  shows "sorts lib ascending series"
proof (cases ascending)
  case True
  then have asc: "ascending = True" by simp
  show ?thesis
    unfolding asc
    by (rule sorts_good_bad[where good = "argsort (filter (\<lambda>p. \<not> isnan (snd p)) series)"])
       (simp_all add: mset_argsort argsort_ascending assms stable_sort_values_def)
next
  case False
  then have asc: "ascending = False" by simp
  show ?thesis
    unfolding asc
    by (rule sorts_good_bad[where good = "rev (argsort (rev (filter (\<lambda>p. \<not> isnan (snd p)) series)))"])
       (simp_all add: mset_argsort argsort_descending assms stable_sort_values_def)
qed

end
